theory Spec2Isabelle
  imports Main
begin

section \<open>Python values and exceptions\<close>

text \<open>
  The values that travel through the handlers of \<^verbatim>\<open>backend/main.py\<close> are JSON-like Python
  objects: token payloads, WebSocket frames, service results. Numbers are integers here;
  a \<^verbatim>\<open>dict\<close> is an association list read with \<open>map_of\<close>.
\<close>

datatype pyval =
    PNone
  | PBool bool
  | PInt int
  | PStr string
  | PList "pyval list"
  | PDict "(string \<times> pyval) list"

text \<open>Python truthiness, as used by \<^verbatim>\<open>if token:\<close> and \<^verbatim>\<open>if not user_id:\<close>.\<close>

fun truthy :: "pyval \<Rightarrow> bool" where
  "truthy PNone = False"
| "truthy (PBool b) = b"
| "truthy (PInt n) = (n \<noteq> 0)"
| "truthy (PStr s) = (s \<noteq> [])"
| "truthy (PList xs) = (xs \<noteq> [])"
| "truthy (PDict kvs) = (kvs \<noteq> [])"

text \<open>
  The instances of Python's \<^verbatim>\<open>Exception\<close> class, which is what every
  \<^verbatim>\<open>except Exception\<close> clause of the source catches. \<open>WebSocketDisconnect\<close> and
  \<open>HTTPException\<close> are the two subclasses the source names; \<open>AttributeError\<close> is what
  \<^verbatim>\<open>x.get(...)\<close> raises when \<^verbatim>\<open>x\<close> is not a dict; \<open>Exception\<close> stands for any other
  instance, with an opaque description.
\<close>

datatype exn =
    WebSocketDisconnect
  | HTTPException nat string
  | AttributeError string
  | Exception string

text \<open>\<^verbatim>\<open>obj.get(key, default)\<close>: only a dict has the method.\<close>

fun py_get :: "pyval \<Rightarrow> string \<Rightarrow> pyval \<Rightarrow> exn + pyval" where
  "py_get (PDict kvs) k d = Inr (case map_of kvs k of None \<Rightarrow> d | Some v \<Rightarrow> v)"
| "py_get _ k d = Inl (AttributeError ''get'')"

section \<open>Handlers as state transformers with a call log\<close>

text \<open>
  The services, the connection manager, the socket and \<^verbatim>\<open>verify_token\<close> are defined outside
  the two source files. Each of their operations is a parameter: a function of the world
  \<open>'w\<close> (everything outside the handler) that returns a value or raises, and leaves a new
  world. A handler is run on a world and yields its outcome, the final world and the log of
  the collaborator calls it made, each with its outcome, in order.
\<close>

datatype 'a outcome =
    Return 'a
  | Raise exn
  | Pending  \<comment> \<open>suspended at an \<^verbatim>\<open>await\<close> that does not complete\<close>

datatype AsyncSession = AsyncSession nat

datatype call =
    VerifyToken string
  | Connect pyval
  | ReceiveJson
  | ProcessMessage string pyval pyval pyval
  | SendJson pyval
  | Close nat string
  | Disconnect
  | AgentHealthCheck
  | VectorHealthCheck
  | LLMHealthCheck
  | CreateAgent pyval string string string string "string list" "(string \<times> pyval) list" AsyncSession
  | GetUserAgents pyval AsyncSession
  | ChatWithAgent pyval string string "string option" bool AsyncSession

type_synonym log = "(call \<times> pyval outcome) list"

type_synonym ('a, 'w) io = "'w \<Rightarrow> (exn + 'a) \<times> 'w"

type_synonym ('a, 'w) handler = "'w \<Rightarrow> 'a outcome \<times> 'w \<times> log"

definition ret :: "'a \<Rightarrow> ('a, 'w) handler" where
  "ret a w = (Return a, w, [])"

definition raise :: "exn \<Rightarrow> ('a, 'w) handler" where
  "raise e w = (Raise e, w, [])"

text \<open>A pure Python expression that may raise, evaluated inside a handler.\<close>

definition lift :: "exn + 'a \<Rightarrow> ('a, 'w) handler" where
  "lift r w = (case r of Inl e \<Rightarrow> (Raise e, w, []) | Inr a \<Rightarrow> (Return a, w, []))"

text \<open>
  A call of a collaborator: \<open>repr\<close> is how its value is written in the log.
\<close>

definition perform :: "('a \<Rightarrow> pyval) \<Rightarrow> call \<Rightarrow> ('a, 'w) io \<Rightarrow> ('a, 'w) handler" where
  "perform repr c f w =
     (case f w of
        (Inl e, w') \<Rightarrow> (Raise e, w', [(c, Raise e)])
      | (Inr a, w') \<Rightarrow> (Return a, w', [(c, Return (repr a))]))"

text \<open>Sequencing: the rest runs only when the first part returned.\<close>

definition andthen :: "('a, 'w) handler \<Rightarrow> ('a \<Rightarrow> ('b, 'w) handler) \<Rightarrow> ('b, 'w) handler" where
  "andthen m k w =
     (case m w of
        (Return a, w1, l1) \<Rightarrow> (case k a w1 of (r, w2, l2) \<Rightarrow> (r, w2, l1 @ l2))
      | (Raise e, w1, l1) \<Rightarrow> (Raise e, w1, l1)
      | (Pending, w1, l1) \<Rightarrow> (Pending, w1, l1))"

text \<open>
  \<^verbatim>\<open>try: m  except Exception as e: h e\<close>. An exception raised by the \<^verbatim>\<open>except\<close> block itself
  is not caught again.
\<close>

definition try_except :: "('a, 'w) handler \<Rightarrow> (exn \<Rightarrow> ('a, 'w) handler) \<Rightarrow> ('a, 'w) handler" where
  "try_except m h w =
     (case m w of
        (Raise e, w1, l1) \<Rightarrow> (case h e w1 of (r, w2, l2) \<Rightarrow> (r, w2, l1 @ l2))
      | (Return a, w1, l1) \<Rightarrow> (Return a, w1, l1)
      | (Pending, w1, l1) \<Rightarrow> (Pending, w1, l1))"

text \<open>
  \<^verbatim>\<open>try: m  finally: d\<close>. The \<^verbatim>\<open>finally\<close> block runs when \<open>m\<close> returned or raised; an exception
  of the \<^verbatim>\<open>finally\<close> block replaces the outcome of \<open>m\<close>.
\<close>

definition try_finally :: "('a, 'w) handler \<Rightarrow> ('b, 'w) handler \<Rightarrow> ('a, 'w) handler" where
  "try_finally m d w =
     (case m w of
        (Pending, w1, l1) \<Rightarrow> (Pending, w1, l1)
      | (r, w1, l1) \<Rightarrow>
          (case d w1 of
             (Return _, w2, l2) \<Rightarrow> (r, w2, l1 @ l2)
           | (Raise e, w2, l2) \<Rightarrow> (Raise e, w2, l1 @ l2)
           | (Pending, w2, l2) \<Rightarrow> (Pending, w2, l1 @ l2)))"

text \<open>The collaborators of \<^verbatim>\<open>backend/main.py\<close>, one field per operation the handlers call.\<close>

record 'w env =
  verify_token :: "string \<Rightarrow> (pyval, 'w) io"
  cm_connect :: "pyval \<Rightarrow> (pyval, 'w) io"
  cm_disconnect :: "(pyval, 'w) io"
  ws_close :: "nat \<Rightarrow> string \<Rightarrow> (pyval, 'w) io"
  ws_send_json :: "pyval \<Rightarrow> (pyval, 'w) io"
  process_message :: "string \<Rightarrow> pyval \<Rightarrow> pyval \<Rightarrow> pyval \<Rightarrow> (pyval, 'w) io"
  agent_health_check :: "(bool, 'w) io"
  vector_health_check :: "(bool, 'w) io"
  llm_health_check :: "(bool, 'w) io"
  agent_create_agent ::
    "pyval \<Rightarrow> string \<Rightarrow> string \<Rightarrow> string \<Rightarrow> string \<Rightarrow> string list \<Rightarrow> (string \<times> pyval) list
       \<Rightarrow> AsyncSession \<Rightarrow> (pyval, 'w) io"
  agent_get_user_agents :: "pyval \<Rightarrow> AsyncSession \<Rightarrow> (pyval, 'w) io"
  agent_chat_with_agent ::
    "pyval \<Rightarrow> string \<Rightarrow> string \<Rightarrow> string option \<Rightarrow> bool \<Rightarrow> AsyncSession \<Rightarrow> (pyval, 'w) io"

section \<open>The health endpoint\<close>

record HealthResponse =
  status :: string
  version :: string
  timestamp :: string
  database :: bool
  vector_db :: bool
  llm_service :: bool

text \<open>
  The constructor call of lines 155-160: \<open>status\<close> and \<open>version\<close> are not passed and take
  the defaults of the class declaration.
\<close>

definition HealthResponse_init :: "string \<Rightarrow> bool \<Rightarrow> bool \<Rightarrow> bool \<Rightarrow> HealthResponse" where
  "HealthResponse_init ts db vec llm =
     \<lparr>status = ''healthy'', version = ''1.0.0'', timestamp = ts,
      database = db, vector_db = vec, llm_service = llm\<rparr>"

text \<open>
  \<^verbatim>\<open>GET /health\<close>. \<open>now\<close> is \<^verbatim>\<open>datetime.utcnow().isoformat()\<close>. The probes are declared to
  return a \<^verbatim>\<open>bool\<close>, the type of the fields they fill.
\<close>

definition health_check :: "'w env \<Rightarrow> string \<Rightarrow> (HealthResponse, 'w) handler" where
  "health_check c now =
     andthen (try_except (perform PBool AgentHealthCheck (agent_health_check c)) (\<lambda>e. ret False))
       (\<lambda>db_healthy.
     andthen (try_except (perform PBool VectorHealthCheck (vector_health_check c)) (\<lambda>e. ret False))
       (\<lambda>vector_healthy.
     andthen (try_except (perform PBool LLMHealthCheck (llm_health_check c)) (\<lambda>e. ret False))
       (\<lambda>llm_healthy.
     ret (HealthResponse_init now db_healthy vector_healthy llm_healthy))))"

section \<open>Authentication dependency and protected routes\<close>

record HTTPAuthorizationCredentials =
  scheme :: string
  credentials :: string

text \<open>
  \<^verbatim>\<open>get_current_user\<close>, lines 163-173. The \<^verbatim>\<open>HTTPException\<close> raised inside the \<^verbatim>\<open>try\<close> block is
  an \<^verbatim>\<open>Exception\<close> too, so the \<^verbatim>\<open>except\<close> clause catches it and raises its own.
\<close>

definition get_current_user :: "'w env \<Rightarrow> HTTPAuthorizationCredentials \<Rightarrow> (pyval, 'w) handler" where
  "get_current_user c creds =
     try_except
       (andthen (perform id (VerifyToken (credentials creds)) (verify_token c (credentials creds)))
          (\<lambda>payload.
        andthen (lift (py_get payload ''sub'' PNone))
          (\<lambda>user_id.
        if \<not> truthy user_id then raise (HTTPException 401 ''Invalid token'')
        else ret user_id)))
       (\<lambda>e. raise (HTTPException 401 ''Authentication failed''))"

text \<open>
  \<^verbatim>\<open>user_id: str = Depends(get_current_user)\<close>: the framework runs the dependency first and
  calls the handler body with its value; when the dependency raises, that exception is the
  response and the body is not called.
\<close>

definition protected ::
  "'w env \<Rightarrow> HTTPAuthorizationCredentials \<Rightarrow> (pyval \<Rightarrow> ('a, 'w) handler) \<Rightarrow> ('a, 'w) handler" where
  "protected c creds body = andthen (get_current_user c creds) body"

section \<open>Request models\<close>

record AgentCreateRequest =
  name :: string
  description :: string
  system_prompt :: string
  model :: string
  tools :: "string list"
  settings :: "(string \<times> pyval) list"

record ChatMessage =
  role :: string
  content :: string
  timestamp :: "string option"
  metadata :: "(string \<times> pyval) list"

record ChatRequest =
  message :: string
  agent_id :: string
  conversation_id :: "string option"
  stream :: bool

text \<open>
  Construction of a pydantic model from a request body. The fields are visited in the order
  of the class declaration. A field declared with \<^verbatim>\<open>Field(...)\<close> is required: when its key is
  absent the error \<open>Missing\<close> is recorded for it. A field with a default takes the default when
  its key is absent. A value that is present goes through the validator of the field's type;
  the validators belong to the library and are parameters here. All errors are collected and
  the model is rejected when there is at least one.
\<close>

datatype error_kind = Missing | WrongType

type_synonym 'a validated = "(string \<times> error_kind) list + 'a"





fun field :: "('a \<Rightarrow> 'b) validated \<Rightarrow> 'a validated \<Rightarrow> 'b validated" where
  "field (Inr f) (Inr a) = Inr (f a)"
| "field (Inl es) (Inr a) = Inl es"
| "field (Inr f) (Inl es) = Inl es"
| "field (Inl es) (Inl es') = Inl (es @ es')"




section \<open>Route handlers\<close>

text \<open>
  The bodies of the three routes, lines 256-311. \<open>str\<close> is Python's \<^verbatim>\<open>str\<close> on exceptions,
  which the exception classes of the framework and of the services define.
\<close>

definition create_agent ::
  "'w env \<Rightarrow> (exn \<Rightarrow> string) \<Rightarrow> AgentCreateRequest \<Rightarrow> pyval \<Rightarrow> AsyncSession \<Rightarrow> (pyval, 'w) handler" where
  "create_agent c str request user_id db =
     try_except
       (andthen
          (perform id
             (CreateAgent user_id (name request) (description request) (system_prompt request)
                (model request) (tools request) (settings request) db)
             (agent_create_agent c user_id (name request) (description request)
                (system_prompt request) (model request) (tools request) (settings request) db))
          (\<lambda>agent.
             ret (PDict [(''message'', PStr ''Agent created successfully''), (''agent'', agent)])))
       (\<lambda>e. raise (HTTPException 500 (str e)))"

definition list_agents ::
  "'w env \<Rightarrow> (exn \<Rightarrow> string) \<Rightarrow> pyval \<Rightarrow> AsyncSession \<Rightarrow> (pyval, 'w) handler" where
  "list_agents c str user_id db =
     try_except
       (andthen (perform id (GetUserAgents user_id db) (agent_get_user_agents c user_id db))
          (\<lambda>agents. ret (PDict [(''agents'', agents)])))
       (\<lambda>e. raise (HTTPException 500 (str e)))"

definition chat_with_agent ::
  "'w env \<Rightarrow> (exn \<Rightarrow> string) \<Rightarrow> ChatRequest \<Rightarrow> pyval \<Rightarrow> AsyncSession \<Rightarrow> (pyval, 'w) handler" where
  "chat_with_agent c str request user_id db =
     try_except
       (andthen
          (perform id
             (ChatWithAgent user_id (agent_id request) (message request) (conversation_id request)
                (stream request) db)
             (agent_chat_with_agent c user_id (agent_id request) (message request)
                (conversation_id request) (stream request) db))
          (\<lambda>response. ret response))
       (\<lambda>e. raise (HTTPException 500 (str e)))"

section \<open>The WebSocket endpoint\<close>

text \<open>
  Lines 203-213, the body of the loop after a frame \<open>data\<close> was received: the two
  \<^verbatim>\<open>data.get\<close> reads, the call of \<^verbatim>\<open>process_message\<close>, and \<^verbatim>\<open>send_json\<close> of its value.
\<close>

definition chat_turn :: "'w env \<Rightarrow> string \<Rightarrow> pyval \<Rightarrow> pyval \<Rightarrow> (pyval, 'w) handler" where
  "chat_turn c agent user_id data =
     andthen (lift (py_get data ''message'' (PStr [])))
       (\<lambda>msg.
     andthen (lift (py_get data ''conversation_id'' PNone))
       (\<lambda>conv.
     andthen (perform id (ProcessMessage agent user_id msg conv)
                (process_message c agent user_id msg conv))
       (\<lambda>response.
     perform id (SendJson response) (ws_send_json c response))))"

text \<open>
  \<^verbatim>\<open>while True\<close>, lines 199-213. \<open>frames\<close> lists what the successive calls of
  \<^verbatim>\<open>websocket.receive_json()\<close> produce: a JSON value, or the exception raised (a
  \<open>WebSocketDisconnect\<close> when the client has left). When the list is used up the handler
  stays suspended in \<^verbatim>\<open>receive_json\<close>. The loop has no exit of its own: it ends by an
  exception or not at all.
\<close>

fun receive_loop :: "'w env \<Rightarrow> string \<Rightarrow> pyval \<Rightarrow> (exn + pyval) list \<Rightarrow> (unit, 'w) handler" where
  "receive_loop c agent user_id [] = (\<lambda>w. (Pending, w, [(ReceiveJson, Pending)]))"
| "receive_loop c agent user_id (f # fs) =
     andthen (perform id ReceiveJson (\<lambda>w. (f, w)))
       (\<lambda>data.
     andthen (chat_turn c agent user_id data)
       (\<lambda>_. receive_loop c agent user_id fs))"

text \<open>Lines 195-221: accept the connection, run the loop, handle its end.\<close>

definition ws_session :: "'w env \<Rightarrow> string \<Rightarrow> pyval \<Rightarrow> (exn + pyval) list \<Rightarrow> (unit, 'w) handler" where
  "ws_session c agent user_id frames =
     andthen (perform id (Connect user_id) (cm_connect c user_id))
       (\<lambda>_.
     try_finally
       (try_except (receive_loop c agent user_id frames)
          (\<lambda>e. if e = WebSocketDisconnect then ret ()
               else andthen (perform id (Close 4000 ''Internal server error'')
                               (ws_close c 4000 ''Internal server error''))
                      (\<lambda>_. ret ())))
       (perform id Disconnect (cm_disconnect c)))"

text \<open>Runs a block and hands its exception, if any, to the code that follows as a value.\<close>

definition attempt :: "('a, 'w) handler \<Rightarrow> (exn + 'a, 'w) handler" where
  "attempt m w =
     (case m w of
        (Return a, w1, l1) \<Rightarrow> (Return (Inr a), w1, l1)
      | (Raise e, w1, l1) \<Rightarrow> (Return (Inl e), w1, l1)
      | (Pending, w1, l1) \<Rightarrow> (Pending, w1, l1))"

text \<open>
  Lines 184-193, the authentication block of \<^verbatim>\<open>websocket_chat\<close>. \<open>token\<close> is the optional
  query parameter; \<^verbatim>\<open>if token:\<close> holds for a string that is present and not empty. The value
  is the \<open>user_id\<close> (\<open>PNone\<close> when the block is skipped), or the exception that the \<^verbatim>\<open>try\<close>
  block raised.
\<close>

definition ws_authenticate :: "'w env \<Rightarrow> string option \<Rightarrow> (exn + pyval, 'w) handler" where
  "ws_authenticate c token =
     (case token of
        None \<Rightarrow> ret (Inr PNone)
      | Some t \<Rightarrow>
          if t = [] then ret (Inr PNone)
          else attempt
                 (andthen (perform id (VerifyToken t) (verify_token c t))
                    (\<lambda>payload. lift (py_get payload ''sub'' PNone))))"

text \<open>
  \<^verbatim>\<open>websocket_chat\<close>, lines 176-221. The \<^verbatim>\<open>except\<close> block of the authentication closes the
  socket and returns from the handler.
\<close>

definition websocket_chat ::
  "'w env \<Rightarrow> string \<Rightarrow> string option \<Rightarrow> (exn + pyval) list \<Rightarrow> (unit, 'w) handler" where
  "websocket_chat c agent token frames =
     andthen (ws_authenticate c token)
       (\<lambda>auth. case auth of
          Inl e \<Rightarrow>
            andthen (perform id (Close 4001 ''Authentication failed'')
                       (ws_close c 4001 ''Authentication failed''))
              (\<lambda>_. ret ())
        | Inr user_id \<Rightarrow> ws_session c agent user_id frames)"

section \<open>The settings singleton\<close>

text \<open>
  \<^verbatim>\<open>backend/core/config.py\<close>, lines 214-221. \<open>Settings()\<close> reads the process environment
  \<open>'e\<close> and yields the settings \<open>'cfg\<close>, or raises when validation fails; \<open>load\<close> is that
  reading. Each successful construction allocates a new object; an object is identified by
  its position in \<open>objects\<close>. \<open>cache\<close> is the store of \<^verbatim>\<open>@lru_cache()\<close>: the function takes no
  argument, so the store has one slot. \<open>constructed\<close> counts the runs of the constructor.
\<close>

record 'cfg config_state =
  objects :: "'cfg list"
  cache :: "nat option"
  constructed :: nat

definition Settings_init ::
  "('e \<Rightarrow> exn + 'cfg) \<Rightarrow> 'e \<Rightarrow> 'cfg config_state \<Rightarrow> (exn + nat) \<times> 'cfg config_state" where
  "Settings_init load environ st =
     (case load environ of
        Inl e \<Rightarrow> (Inl e, st\<lparr>constructed := constructed st + 1\<rparr>)
      | Inr v \<Rightarrow> (Inr (length (objects st)),
                 st\<lparr>objects := objects st @ [v], constructed := constructed st + 1\<rparr>))"

text \<open>
  A hit returns the stored object; a miss runs the function and stores what it returns.
  Nothing is stored when the function raises.
\<close>

definition get_settings ::
  "('e \<Rightarrow> exn + 'cfg) \<Rightarrow> 'e \<Rightarrow> 'cfg config_state \<Rightarrow> (exn + nat) \<times> 'cfg config_state" where
  "get_settings load environ st =
     (case cache st of
        Some r \<Rightarrow> (Inr r, st)
      | None \<Rightarrow>
          (case Settings_init load environ st of
             (Inr r, st') \<Rightarrow> (Inr r, st'\<lparr>cache := Some r\<rparr>)
           | (Inl e, st') \<Rightarrow> (Inl e, st')))"

text \<open>
  Line 221, \<^verbatim>\<open>settings = get_settings()\<close>, runs when the module is imported, on the empty
  store. When it raises, the import fails and the module, with its \<^verbatim>\<open>get_settings\<close>, is not
  available to any caller.
\<close>

definition import_config ::
  "('e \<Rightarrow> exn + 'cfg) \<Rightarrow> 'e \<Rightarrow> (exn + nat) \<times> 'cfg config_state" where
  "import_config load environ =
     get_settings load environ \<lparr>objects = [], cache = None, constructed = 0\<rparr>"

text \<open>Later calls of \<^verbatim>\<open>get_settings()\<close>, each with the environment as it is at that moment.\<close>

fun get_settings_calls ::
  "('e \<Rightarrow> exn + 'cfg) \<Rightarrow> 'e list \<Rightarrow> 'cfg config_state \<Rightarrow> (exn + nat) list \<times> 'cfg config_state" where
  "get_settings_calls load [] st = ([], st)"
| "get_settings_calls load (environ # rest) st =
     (case get_settings load environ st of
        (r, st1) \<Rightarrow> (case get_settings_calls load rest st1 of (rs, st2) \<Rightarrow> (r # rs, st2)))"

section \<open>A concrete environment\<close>

text \<open>
  Collaborators with fixed behaviour, used to run the handlers on concrete inputs. The world
  is the number of calls made so far.
\<close>

definition sample_env :: "nat env" where
  "sample_env =
     \<lparr>verify_token = (\<lambda>t w.
        (if t = ''good'' then Inr (PDict [(''sub'', PStr ''alice'')])
         else if t = ''anonymous'' then Inr (PDict [(''exp'', PInt 0)])
         else Inl (Exception ''bad token''), Suc w)),
      cm_connect = (\<lambda>u w. (Inr PNone, Suc w)),
      cm_disconnect = (\<lambda>w. (Inr PNone, Suc w)),
      ws_close = (\<lambda>code reason w. (Inr PNone, Suc w)),
      ws_send_json = (\<lambda>v w. (Inr PNone, Suc w)),
      process_message = (\<lambda>a u m conv w.
        (if m = PStr ''crash'' then Inl (Exception ''model failure'')
         else Inr (PDict [(''reply'', m), (''turn'', PInt (int w))]), Suc w)),
      agent_health_check = (\<lambda>w. (Inr True, Suc w)),
      vector_health_check = (\<lambda>w. (Inl (Exception ''unreachable''), Suc w)),
      llm_health_check = (\<lambda>w. (Inr False, Suc w)),
      agent_create_agent = (\<lambda>u n d p m t s db w. (Inr (PDict [(''name'', PStr n)]), Suc w)),
      agent_get_user_agents = (\<lambda>u db w. (Inr (PList []), Suc w)),
      agent_chat_with_agent = (\<lambda>u a m conv s db w.
        (if m = [] then Inl (Exception ''empty message'') else Inr (PStr ''hello''), Suc w))\<rparr>"

definition sample_str :: "exn \<Rightarrow> string" where
  "sample_str e =
     (case e of
        WebSocketDisconnect \<Rightarrow> []
      | HTTPException code detail \<Rightarrow> detail
      | AttributeError a \<Rightarrow> a
      | Exception s \<Rightarrow> s)"


text \<open>
  A reading of the environment that needs the variable \<^verbatim>\<open>DATABASE_URL\<close>, as \<^verbatim>\<open>Settings\<close> does,
  and keeps its value.
\<close>

definition sample_load :: "(string \<times> string) list \<Rightarrow> exn + string" where
  "sample_load environ =
     (case map_of environ ''DATABASE_URL'' of
        None \<Rightarrow> Inl (Exception ''field required'')
      | Some url \<Rightarrow> Inr url)"

section \<open>Properties of the health endpoint\<close>

lemma try_probe:
  "f w = (r, w1) \<Longrightarrow>
   try_except (perform PBool cl f) (\<lambda>e. ret False) w =
     (Return (case r of Inl e \<Rightarrow> False | Inr b \<Rightarrow> b), w1,
      [(cl, case r of Inl e \<Rightarrow> Raise e | Inr b \<Rightarrow> Return (PBool b))])"
  by (simp add: try_except_def perform_def ret_def split: sum.splits)

lemma health_check_run:
  assumes "agent_health_check c w = (r1, w1)"
    and "vector_health_check c w1 = (r2, w2)"
    and "llm_health_check c w2 = (r3, w3)"
  shows "health_check c now w =
     (Return (HealthResponse_init now (case r1 of Inl e \<Rightarrow> False | Inr b \<Rightarrow> b)
        (case r2 of Inl e \<Rightarrow> False | Inr b \<Rightarrow> b) (case r3 of Inl e \<Rightarrow> False | Inr b \<Rightarrow> b)),
      w3,
      [(AgentHealthCheck, case r1 of Inl e \<Rightarrow> Raise e | Inr b \<Rightarrow> Return (PBool b)),
       (VectorHealthCheck, case r2 of Inl e \<Rightarrow> Raise e | Inr b \<Rightarrow> Return (PBool b)),
       (LLMHealthCheck, case r3 of Inl e \<Rightarrow> Raise e | Inr b \<Rightarrow> Return (PBool b))])"
  using assms unfolding health_check_def
  by (simp add: andthen_def try_probe ret_def)

text \<open>
  Claim C1. Whatever the three probes do, \<open>health_check\<close> returns a response and does not
  raise. \<open>r1\<close>, \<open>r2\<close>, \<open>r3\<close> are the outcomes of the probes of the agent service, the vector
  service and the LLM service, run one after the other. A probe that returns the boolean
  \<open>b\<close> gives its field the value \<open>b\<close>; a probe that raises gives its field \<open>False\<close>.
\<close>

theorem health_check_reflects_probes:
  assumes "agent_health_check c w = (r1, w1)"
    and "vector_health_check c w1 = (r2, w2)"
    and "llm_health_check c w2 = (r3, w3)"
  shows "\<exists>resp l. health_check c now w = (Return resp, w3, l) \<and>
      (\<forall>b. r1 = Inr b \<longrightarrow> database resp = b) \<and> (\<forall>e. r1 = Inl e \<longrightarrow> database resp = False) \<and>
      (\<forall>b. r2 = Inr b \<longrightarrow> vector_db resp = b) \<and> (\<forall>e. r2 = Inl e \<longrightarrow> vector_db resp = False) \<and>
      (\<forall>b. r3 = Inr b \<longrightarrow> llm_service resp = b) \<and> (\<forall>e. r3 = Inl e \<longrightarrow> llm_service resp = False)"
  by (auto simp add: health_check_run[OF assms] HealthResponse_init_def)

theorem health_check_reflects_probes_witness:
  "agent_health_check sample_env 0 = (Inr True, 1) \<and>
   vector_health_check sample_env 1 = (Inl (Exception ''unreachable''), 2) \<and>
   llm_health_check sample_env 2 = (Inr False, 3) \<and>
   (\<exists>resp l. health_check sample_env ''2024-01-01T00:00:00'' 0 = (Return resp, 3, l) \<and>
      database resp = True \<and> vector_db resp = False \<and> llm_service resp = False)"
proof -
  have a: "agent_health_check sample_env 0 = (Inr True, 1)"
    by (simp add: sample_env_def)
  have b: "vector_health_check sample_env 1 = (Inl (Exception ''unreachable''), 2)"
    by (simp add: sample_env_def)
  have d: "llm_health_check sample_env 2 = (Inr False, 3)"
    by (simp add: sample_env_def)
  from health_check_reflects_probes[OF a b d, of "''2024-01-01T00:00:00''"]
  show ?thesis using a b d by auto
qed

text \<open>
  Claim C10. Every response of \<open>health_check\<close> has the status \<open>healthy\<close> and the version
  \<open>1.0.0\<close>, whatever the probes returned or raised.
\<close>

theorem health_check_status_version:
  "\<exists>resp w' l. health_check c now w = (Return resp, w', l) \<and>
     status resp = ''healthy'' \<and> version resp = ''1.0.0''"
proof -
  obtain r1 w1 where a: "agent_health_check c w = (r1, w1)"
    by (cases "agent_health_check c w")
  obtain r2 w2 where b: "vector_health_check c w1 = (r2, w2)"
    by (cases "vector_health_check c w1")
  obtain r3 w3 where d: "llm_health_check c w2 = (r3, w3)"
    by (cases "llm_health_check c w2")
  show ?thesis
    by (simp add: health_check_run[OF a b d] HealthResponse_init_def)
qed

section \<open>Properties of authentication and of the route handlers\<close>

lemma get_current_user_run:
  assumes "verify_token c (credentials creds) w = (r, w1)"
  shows "get_current_user c creds w =
     ((case r of
         Inl e \<Rightarrow> Raise (HTTPException 401 ''Authentication failed'')
       | Inr p \<Rightarrow>
           (case py_get p ''sub'' PNone of
              Inl e \<Rightarrow> Raise (HTTPException 401 ''Authentication failed'')
            | Inr u \<Rightarrow> if truthy u then Return u
                       else Raise (HTTPException 401 ''Authentication failed''))),
      w1,
      [(VerifyToken (credentials creds), case r of Inl e \<Rightarrow> Raise e | Inr p \<Rightarrow> Return p)])"
  using assms unfolding get_current_user_def
  by (simp add: try_except_def andthen_def perform_def lift_def ret_def raise_def
      split: sum.splits)

lemma py_get_no_sub:
  assumes "\<forall>kvs v. p = PDict kvs \<and> map_of kvs ''sub'' = Some v \<longrightarrow> \<not> truthy v"
  shows "(case py_get p ''sub'' PNone of
            Inl e \<Rightarrow> Raise (HTTPException 401 ''Authentication failed'')
          | Inr u \<Rightarrow> if truthy u then Return u
                     else Raise (HTTPException 401 ''Authentication failed''))
         = Raise (HTTPException 401 ''Authentication failed'')"
  using assms by (cases p) (auto split: option.splits)

text \<open>
  Claim C5. \<open>r\<close> is the outcome of \<open>verify_token\<close> on the bearer token. When \<open>verify_token\<close>
  raises, or when the payload it returns has no truthy \<open>sub\<close> entry (no entry, a falsy one,
  or a payload that is not a dict), \<open>get_current_user\<close> raises \<open>HTTPException\<close> with status
  401, and a route protected by it ends with that exception and the same log, for every
  handler body: the body makes no call. When the payload is a dict whose \<open>sub\<close> entry is
  truthy, \<open>get_current_user\<close> returns that entry.
\<close>

theorem get_current_user_401_or_sub:
  assumes "verify_token c (credentials creds) w = (r, w1)"
  shows "((\<exists>e. r = Inl e) \<or>
          (\<exists>p. r = Inr p \<and> (\<forall>kvs v. p = PDict kvs \<and> map_of kvs ''sub'' = Some v \<longrightarrow> \<not> truthy v))
          \<longrightarrow> (\<exists>l. get_current_user c creds w =
                      (Raise (HTTPException 401 ''Authentication failed''), w1, l) \<and>
                    (\<forall>body. protected c creds body w =
                      (Raise (HTTPException 401 ''Authentication failed''), w1, l)))) \<and>
         (\<forall>kvs v. r = Inr (PDict kvs) \<and> map_of kvs ''sub'' = Some v \<and> truthy v
          \<longrightarrow> (\<exists>l. get_current_user c creds w = (Return v, w1, l)))"
proof (intro conjI impI allI)
  assume "(\<exists>e. r = Inl e) \<or>
          (\<exists>p. r = Inr p \<and> (\<forall>kvs v. p = PDict kvs \<and> map_of kvs ''sub'' = Some v \<longrightarrow> \<not> truthy v))"
  then have "get_current_user c creds w =
      (Raise (HTTPException 401 ''Authentication failed''), w1,
       [(VerifyToken (credentials creds), case r of Inl e \<Rightarrow> Raise e | Inr p \<Rightarrow> Return p)])"
    by (auto simp add: get_current_user_run[OF assms] py_get_no_sub)
  then show "\<exists>l. get_current_user c creds w =
                      (Raise (HTTPException 401 ''Authentication failed''), w1, l) \<and>
                    (\<forall>body. protected c creds body w =
                      (Raise (HTTPException 401 ''Authentication failed''), w1, l))"
    by (simp add: protected_def andthen_def)
next
  fix kvs v
  assume "r = Inr (PDict kvs) \<and> map_of kvs ''sub'' = Some v \<and> truthy v"
  then show "\<exists>l. get_current_user c creds w = (Return v, w1, l)"
    by (simp add: get_current_user_run[OF assms])
qed

theorem get_current_user_401_or_sub_witness:
  "verify_token sample_env ''expired'' 0 = (Inl (Exception ''bad token''), 1) \<and>
   (\<exists>l. get_current_user sample_env \<lparr>scheme = ''Bearer'', credentials = ''expired''\<rparr> 0 =
          (Raise (HTTPException 401 ''Authentication failed''), 1, l)) \<and>
   verify_token sample_env ''anonymous'' 0 = (Inr (PDict [(''exp'', PInt 0)]), 1) \<and>
   (\<exists>l. get_current_user sample_env \<lparr>scheme = ''Bearer'', credentials = ''anonymous''\<rparr> 0 =
          (Raise (HTTPException 401 ''Authentication failed''), 1, l)) \<and>
   verify_token sample_env ''good'' 0 = (Inr (PDict [(''sub'', PStr ''alice'')]), 1) \<and>
   (\<exists>l. get_current_user sample_env \<lparr>scheme = ''Bearer'', credentials = ''good''\<rparr> 0 =
          (Return (PStr ''alice''), 1, l))"
proof -
  have a: "verify_token sample_env (credentials \<lparr>scheme = ''Bearer'', credentials = ''expired''\<rparr>) 0
             = (Inl (Exception ''bad token''), 1)"
    by (simp add: sample_env_def)
  have b: "verify_token sample_env (credentials \<lparr>scheme = ''Bearer'', credentials = ''anonymous''\<rparr>) 0
             = (Inr (PDict [(''exp'', PInt 0)]), 1)"
    by (simp add: sample_env_def)
  have d: "verify_token sample_env (credentials \<lparr>scheme = ''Bearer'', credentials = ''good''\<rparr>) 0
             = (Inr (PDict [(''sub'', PStr ''alice'')]), 1)"
    by (simp add: sample_env_def)
  have "\<exists>l. get_current_user sample_env \<lparr>scheme = ''Bearer'', credentials = ''expired''\<rparr> 0 =
          (Raise (HTTPException 401 ''Authentication failed''), 1, l)"
    using get_current_user_401_or_sub[OF a] by auto
  moreover
  have "\<exists>l. get_current_user sample_env \<lparr>scheme = ''Bearer'', credentials = ''anonymous''\<rparr> 0 =
          (Raise (HTTPException 401 ''Authentication failed''), 1, l)"
    using get_current_user_401_or_sub[OF b] by auto
  moreover
  have "\<exists>l. get_current_user sample_env \<lparr>scheme = ''Bearer'', credentials = ''good''\<rparr> 0 =
          (Return (PStr ''alice''), 1, l)"
    using get_current_user_401_or_sub[OF d] by auto
  ultimately show ?thesis using a b d by simp
qed

text \<open>
  Claim C3, as the code has it. \<open>r1\<close>, \<open>r2\<close>, \<open>r3\<close> are the outcomes of the service calls of
  \<open>create_agent\<close>, \<open>list_agents\<close> and \<open>chat_with_agent\<close>. When the service call raises \<open>e\<close>, the
  handler raises \<open>HTTPException\<close> with status 500 and detail \<open>str e\<close>. When it returns \<open>a\<close>,
  the handler returns without error: \<open>chat_with_agent\<close> returns \<open>a\<close> itself, \<open>create_agent\<close>
  returns the dict of a fixed message and \<open>a\<close> under \<open>agent\<close>, \<open>list_agents\<close> returns the dict
  with \<open>a\<close> under \<open>agents\<close>.
\<close>

theorem route_handlers_500_or_response:
  assumes "agent_create_agent c u (name rq) (description rq) (system_prompt rq) (model rq)
             (tools rq) (settings rq) db w = (r1, w1)"
    and "agent_get_user_agents c u db w = (r2, w2)"
    and "agent_chat_with_agent c u (agent_id cq) (message cq) (conversation_id cq) (stream cq) db w
           = (r3, w3)"
  shows "(\<forall>e. r1 = Inl e \<longrightarrow> fst (create_agent c str rq u db w) = Raise (HTTPException 500 (str e))) \<and>
         (\<forall>e. r2 = Inl e \<longrightarrow> fst (list_agents c str u db w) = Raise (HTTPException 500 (str e))) \<and>
         (\<forall>e. r3 = Inl e \<longrightarrow> fst (chat_with_agent c str cq u db w) = Raise (HTTPException 500 (str e))) \<and>
         (\<forall>a. r1 = Inr a \<longrightarrow> fst (create_agent c str rq u db w) =
            Return (PDict [(''message'', PStr ''Agent created successfully''), (''agent'', a)])) \<and>
         (\<forall>a. r2 = Inr a \<longrightarrow> fst (list_agents c str u db w) = Return (PDict [(''agents'', a)])) \<and>
         (\<forall>a. r3 = Inr a \<longrightarrow> fst (chat_with_agent c str cq u db w) = Return a)"
  using assms unfolding create_agent_def list_agents_def chat_with_agent_def
  by (simp add: try_except_def andthen_def perform_def ret_def raise_def)

theorem route_handlers_500_or_response_witness:
  "agent_create_agent sample_env (PStr ''alice'') ''helper'' ''d'' ''p'' ''gpt-4'' [] []
     (AsyncSession 0) 0 = (Inr (PDict [(''name'', PStr ''helper'')]), 1) \<and>
   agent_get_user_agents sample_env (PStr ''alice'') (AsyncSession 0) 0 = (Inr (PList []), 1) \<and>
   agent_chat_with_agent sample_env (PStr ''alice'') ''a1'' [] None False (AsyncSession 0) 0
     = (Inl (Exception ''empty message''), 1) \<and>
   fst (create_agent sample_env sample_str
          \<lparr>name = ''helper'', description = ''d'', system_prompt = ''p'', model = ''gpt-4'',
           tools = [], settings = []\<rparr> (PStr ''alice'') (AsyncSession 0) 0)
     = Return (PDict [(''message'', PStr ''Agent created successfully''),
                      (''agent'', PDict [(''name'', PStr ''helper'')])]) \<and>
   fst (list_agents sample_env sample_str (PStr ''alice'') (AsyncSession 0) 0)
     = Return (PDict [(''agents'', PList [])]) \<and>
   fst (chat_with_agent sample_env sample_str
          \<lparr>message = [], agent_id = ''a1'', conversation_id = None, stream = False\<rparr>
          (PStr ''alice'') (AsyncSession 0) 0)
     = Raise (HTTPException 500 ''empty message'')"
proof -
  let ?rq = "\<lparr>name = ''helper'', description = ''d'', system_prompt = ''p'', model = ''gpt-4'',
              tools = [], settings = []\<rparr>"
  let ?cq = "\<lparr>message = [], agent_id = ''a1'', conversation_id = None, stream = False\<rparr>"
  have a: "agent_create_agent sample_env (PStr ''alice'') (name ?rq) (description ?rq)
             (system_prompt ?rq) (model ?rq) (tools ?rq) (settings ?rq) (AsyncSession 0) 0
           = (Inr (PDict [(''name'', PStr ''helper'')]), 1)"
    by (simp add: sample_env_def)
  have b: "agent_get_user_agents sample_env (PStr ''alice'') (AsyncSession 0) 0
           = (Inr (PList []), 1)"
    by (simp add: sample_env_def)
  have d: "agent_chat_with_agent sample_env (PStr ''alice'') (agent_id ?cq) (message ?cq)
             (conversation_id ?cq) (stream ?cq) (AsyncSession 0) 0
           = (Inl (Exception ''empty message''), 1)"
    by (simp add: sample_env_def)
  from route_handlers_500_or_response[OF a b d, of sample_str]
  show ?thesis using a b d by (simp add: sample_str_def)
qed

text \<open>
  The claim C3 as it is written, with the handler returning the result of the service call,
  fails for \<open>create_agent\<close>: the service returns one dict and the handler another.
\<close>

theorem create_agent_result_counterexample:
  "fst (agent_create_agent sample_env (PStr ''alice'') ''helper'' ''d'' ''p'' ''gpt-4'' [] []
          (AsyncSession 0) 0) = Inr (PDict [(''name'', PStr ''helper'')]) \<and>
   fst (create_agent sample_env sample_str
          \<lparr>name = ''helper'', description = ''d'', system_prompt = ''p'', model = ''gpt-4'',
           tools = [], settings = []\<rparr> (PStr ''alice'') (AsyncSession 0) 0)
     \<noteq> Return (PDict [(''name'', PStr ''helper'')])"
  by (simp add: sample_env_def create_agent_def try_except_def andthen_def perform_def ret_def)

section \<open>Properties of the WebSocket endpoint\<close>

lemmas run_defs =
  websocket_chat_def ws_authenticate_def ws_session_def chat_turn_def attempt_def andthen_def
  perform_def lift_def ret_def try_except_def try_finally_def sample_env_def

lemma split_after_prefix:
  "xs @ ys = pre @ x # post \<Longrightarrow> x \<notin> set xs \<Longrightarrow> \<exists>pre'. pre = xs @ pre' \<and> ys = pre' @ x # post"
proof (induction xs arbitrary: pre)
  case Nil
  then show ?case by simp
next
  case (Cons a xs)
  then show ?case by (cases pre) auto
qed

lemma split_before_suffix:
  "ys @ zs = pre @ x # post \<Longrightarrow> x \<notin> set zs \<Longrightarrow> \<exists>post'. post = post' @ zs \<and> ys = pre @ x # post'"
proof (induction ys arbitrary: pre)
  case Nil
  then show ?case by (metis append_Nil in_set_conv_decomp)
next
  case (Cons a ys)
  then show ?case by (cases pre) auto
qed

lemma chat_turn_not_dict:
  "\<forall>kvs. data \<noteq> PDict kvs \<Longrightarrow> chat_turn c a u data w = (Raise (AttributeError ''get''), w, [])"
  by (cases data) (simp_all add: chat_turn_def andthen_def lift_def)

lemma chat_turn_process_raises:
  "process_message c a u (case map_of d ''message'' of None \<Rightarrow> PStr [] | Some v \<Rightarrow> v)
      (case map_of d ''conversation_id'' of None \<Rightarrow> PNone | Some v \<Rightarrow> v) w = (Inl e, w1) \<Longrightarrow>
   chat_turn c a u (PDict d) w =
     (Raise e, w1,
      [(ProcessMessage a u (case map_of d ''message'' of None \<Rightarrow> PStr [] | Some v \<Rightarrow> v)
          (case map_of d ''conversation_id'' of None \<Rightarrow> PNone | Some v \<Rightarrow> v), Raise e)])"
  by (simp add: chat_turn_def andthen_def lift_def perform_def)

lemma chat_turn_process_returns:
  "process_message c a u (case map_of d ''message'' of None \<Rightarrow> PStr [] | Some v \<Rightarrow> v)
      (case map_of d ''conversation_id'' of None \<Rightarrow> PNone | Some v \<Rightarrow> v) w = (Inr resp, w1) \<Longrightarrow>
   ws_send_json c resp w1 = (r2, w2) \<Longrightarrow>
   chat_turn c a u (PDict d) w =
     ((case r2 of Inl e \<Rightarrow> Raise e | Inr v \<Rightarrow> Return v), w2,
      [(ProcessMessage a u (case map_of d ''message'' of None \<Rightarrow> PStr [] | Some v \<Rightarrow> v)
          (case map_of d ''conversation_id'' of None \<Rightarrow> PNone | Some v \<Rightarrow> v), Return resp),
       (SendJson resp, case r2 of Inl e \<Rightarrow> Raise e | Inr v \<Rightarrow> Return v)])"
  by (simp add: chat_turn_def andthen_def lift_def perform_def split: sum.splits)

lemma chat_turn_shape:
  "chat_turn c a u data w = (rt, w1, lt) \<Longrightarrow>
     rt \<noteq> Pending \<and>
     (\<forall>cl r. (cl, r) \<in> set lt \<longrightarrow> (\<exists>m cv. cl = ProcessMessage a u m cv) \<or> (\<exists>v. cl = SendJson v)) \<and>
     (\<forall>d. data = PDict d \<longrightarrow>
        (\<exists>r lt'. lt = (ProcessMessage a u (case map_of d ''message'' of None \<Rightarrow> PStr [] | Some v \<Rightarrow> v)
             (case map_of d ''conversation_id'' of None \<Rightarrow> PNone | Some v \<Rightarrow> v), r) # lt' \<and>
           (\<forall>resp. r = Return resp \<longrightarrow> (\<exists>r2. lt' = [(SendJson resp, r2)]))))"
proof (cases "\<exists>d. data = PDict d")
  case False
  assume "chat_turn c a u data w = (rt, w1, lt)"
  with False show ?thesis using chat_turn_not_dict[of data c a u w] by auto
next
  case True
  assume run: "chat_turn c a u data w = (rt, w1, lt)"
  from True obtain d where d: "data = PDict d" by blast
  obtain r wp where p: "process_message c a u (case map_of d ''message'' of None \<Rightarrow> PStr [] | Some v \<Rightarrow> v)
      (case map_of d ''conversation_id'' of None \<Rightarrow> PNone | Some v \<Rightarrow> v) w = (r, wp)"
    by (cases "process_message c a u (case map_of d ''message'' of None \<Rightarrow> PStr [] | Some v \<Rightarrow> v)
      (case map_of d ''conversation_id'' of None \<Rightarrow> PNone | Some v \<Rightarrow> v) w")
  show ?thesis
  proof (cases r)
    case (Inl e)
    with p run d show ?thesis using chat_turn_process_raises[of c a u d w e wp] by auto
  next
    case (Inr resp)
    obtain r2 w2 where s: "ws_send_json c resp wp = (r2, w2)" by (cases "ws_send_json c resp wp")
    with Inr p run d show ?thesis
      using chat_turn_process_returns[of c a u d w resp wp r2 w2] by (auto split: sum.splits)
  qed
qed

lemma receive_loop_Cons:
  "receive_loop c a u (f # fs) w =
     (case f of
        Inl e \<Rightarrow> (Raise e, w, [(ReceiveJson, Raise e)])
      | Inr data \<Rightarrow>
          (case chat_turn c a u data w of
             (Return x, w1, lt) \<Rightarrow>
               (case receive_loop c a u fs w1 of
                  (r, w2, ll) \<Rightarrow> (r, w2, (ReceiveJson, Return data) # lt @ ll))
           | (Raise e, w1, lt) \<Rightarrow> (Raise e, w1, (ReceiveJson, Return data) # lt)
           | (Pending, w1, lt) \<Rightarrow> (Pending, w1, (ReceiveJson, Return data) # lt)))"
  by (simp add: andthen_def perform_def split: sum.splits outcome.splits prod.splits)

lemma receive_loop_shape:
  "receive_loop c a u fs w = (res, w', l) \<Longrightarrow>
     (\<forall>x. res \<noteq> Return x) \<and> (\<exists>r l'. l = (ReceiveJson, r) # l') \<and>
     (\<forall>cl r. (cl, r) \<in> set l \<longrightarrow>
        cl = ReceiveJson \<or> (\<exists>m cv. cl = ProcessMessage a u m cv) \<or> (\<exists>v. cl = SendJson v))"
proof (induction fs arbitrary: w res w' l)
  case Nil
  then show ?case by auto
next
  case (Cons f fs)
  show ?case
  proof (cases f)
    case (Inl e)
    with Cons.prems show ?thesis by (auto simp add: receive_loop_Cons simp del: receive_loop.simps)
  next
    case (Inr data)
    obtain rt w1 lt where t: "chat_turn c a u data w = (rt, w1, lt)"
      by (cases "chat_turn c a u data w")
    note sh = chat_turn_shape[OF t]
    show ?thesis
    proof (cases rt)
      case (Return x)
      obtain r w2 ll where r: "receive_loop c a u fs w1 = (r, w2, ll)"
        by (cases "receive_loop c a u fs w1")
      from Cons.prems Inr t Return r
      have l: "l = (ReceiveJson, Return data) # lt @ ll" and res: "res = r"
        by (auto simp add: receive_loop_Cons simp del: receive_loop.simps)
      from Cons.IH[OF r] sh l res show ?thesis
        by (simp del: receive_loop.simps) blast
    next
      case (Raise e)
      with Cons.prems Inr t
      have l: "l = (ReceiveJson, Return data) # lt" and res: "res = Raise e"
        by (auto simp add: receive_loop_Cons simp del: receive_loop.simps)
      from sh l res show ?thesis
        by auto
    next
      case Pending
      with sh show ?thesis by simp
    qed
  qed
qed


lemma receive_loop_turns:
  "receive_loop c a u fs w = (res, w', l) \<Longrightarrow>
   l = pre @ (ReceiveJson, Return (PDict d)) # post \<Longrightarrow>
   \<exists>r post'. post = (ProcessMessage a u (case map_of d ''message'' of None \<Rightarrow> PStr [] | Some v \<Rightarrow> v)
                       (case map_of d ''conversation_id'' of None \<Rightarrow> PNone | Some v \<Rightarrow> v), r) # post' \<and>
     (\<forall>resp. r = Return resp \<longrightarrow> (\<exists>r2 post''. post' = (SendJson resp, r2) # post''))"
proof (induction fs arbitrary: w res w' l pre)
  case Nil
  then show ?case by (cases pre) auto
next
  case (Cons f fs)
  show ?case
  proof (cases f)
    case (Inl e)
    with Cons.prems show ?thesis
      by (cases pre) (auto simp add: receive_loop_Cons simp del: receive_loop.simps)
  next
    case (Inr data)
    obtain rt w1 lt where t: "chat_turn c a u data w = (rt, w1, lt)"
      by (cases "chat_turn c a u data w")
    note sh = chat_turn_shape[OF t]
    obtain r w2 ll where r: "receive_loop c a u fs w1 = (r, w2, ll)"
      by (cases "receive_loop c a u fs w1")
    from Cons.prems(1) Inr t r sh
    have l: "l = (ReceiveJson, Return data) # lt @ (case rt of Return x \<Rightarrow> ll | _ \<Rightarrow> [])"
      by (cases rt) (auto simp add: receive_loop_Cons simp del: receive_loop.simps)
    show ?thesis
    proof (cases pre)
      case Nil
      with l Cons.prems(2) have data: "data = PDict d"
        and post: "post = lt @ (case rt of Return x \<Rightarrow> ll | _ \<Rightarrow> [])"
        by auto
      from sh data obtain r1 lt' where
        lt: "lt = (ProcessMessage a u (case map_of d ''message'' of None \<Rightarrow> PStr [] | Some v \<Rightarrow> v)
               (case map_of d ''conversation_id'' of None \<Rightarrow> PNone | Some v \<Rightarrow> v), r1) # lt'"
        and snd: "\<forall>resp. r1 = Return resp \<longrightarrow> (\<exists>r2. lt' = [(SendJson resp, r2)])"
        by blast
      from post lt snd show ?thesis by auto
    next
      case (Cons p pre')
      with l Cons.prems(2)
      have eq: "lt @ (case rt of Return x \<Rightarrow> ll | _ \<Rightarrow> []) = pre' @ (ReceiveJson, Return (PDict d)) # post"
        by simp
      from sh have "(ReceiveJson, Return (PDict d)) \<notin> set lt" by auto
      from split_after_prefix[OF eq this] obtain pre'' where
        rest: "(case rt of Return x \<Rightarrow> ll | _ \<Rightarrow> []) = pre'' @ (ReceiveJson, Return (PDict d)) # post"
        by blast
      then have "ll = pre'' @ (ReceiveJson, Return (PDict d)) # post"
        by (cases rt) auto
      from Cons.IH[OF r this] show ?thesis .
    qed
  qed
qed


lemma ws_authenticate_skipped:
  "token = None \<or> token = Some [] \<Longrightarrow> ws_authenticate c token w = (Return (Inr PNone), w, [])"
  by (auto simp add: ws_authenticate_def ret_def)

lemma ws_authenticate_token:
  "t \<noteq> [] \<Longrightarrow> verify_token c t w = (r, w1) \<Longrightarrow>
   ws_authenticate c (Some t) w =
     (Return (case r of Inl e \<Rightarrow> Inl e | Inr p \<Rightarrow> py_get p ''sub'' PNone), w1,
      [(VerifyToken t, case r of Inl e \<Rightarrow> Raise e | Inr p \<Rightarrow> Return p)])"
  by (simp add: ws_authenticate_def attempt_def andthen_def perform_def lift_def
      split: sum.splits)

lemma ws_session_connect_raises:
  "cm_connect c u w = (Inl e, w1) \<Longrightarrow>
   ws_session c a u fs w = (Raise e, w1, [(Connect u, Raise e)])"
  by (simp add: ws_session_def andthen_def perform_def)

lemma ws_session_pending:
  "cm_connect c u w = (Inr v, w1) \<Longrightarrow> receive_loop c a u fs w1 = (Pending, w2, ll) \<Longrightarrow>
   ws_session c a u fs w = (Pending, w2, (Connect u, Return v) # ll)"
  by (simp add: ws_session_def andthen_def perform_def try_finally_def try_except_def)

lemma ws_session_disconnected:
  "cm_connect c u w = (Inr v, w1) \<Longrightarrow>
   receive_loop c a u fs w1 = (Raise WebSocketDisconnect, w2, ll) \<Longrightarrow>
   cm_disconnect c w2 = (rd, w3) \<Longrightarrow>
   ws_session c a u fs w =
     ((case rd of Inl e \<Rightarrow> Raise e | Inr x \<Rightarrow> Return ()), w3,
      (Connect u, Return v) # ll @
      [(Disconnect, case rd of Inl e \<Rightarrow> Raise e | Inr x \<Rightarrow> Return x)])"
  by (simp add: ws_session_def andthen_def perform_def try_finally_def try_except_def ret_def
      split: sum.splits)

lemma ws_session_error:
  "cm_connect c u w = (Inr v, w1) \<Longrightarrow>
   receive_loop c a u fs w1 = (Raise e, w2, ll) \<Longrightarrow> e \<noteq> WebSocketDisconnect \<Longrightarrow>
   ws_close c 4000 ''Internal server error'' w2 = (rc, w3) \<Longrightarrow>
   cm_disconnect c w3 = (rd, w4) \<Longrightarrow>
   ws_session c a u fs w =
     ((case rd of Inl e' \<Rightarrow> Raise e'
       | Inr x \<Rightarrow> (case rc of Inl e' \<Rightarrow> Raise e' | Inr y \<Rightarrow> Return ())), w4,
      (Connect u, Return v) # ll @
      [(Close 4000 ''Internal server error'', case rc of Inl e' \<Rightarrow> Raise e' | Inr y \<Rightarrow> Return y),
       (Disconnect, case rd of Inl e' \<Rightarrow> Raise e' | Inr x \<Rightarrow> Return x)])"
  by (simp add: ws_session_def andthen_def perform_def try_finally_def try_except_def ret_def
      split: sum.splits)

lemma websocket_chat_authenticated:
  "ws_authenticate c token w = (Return (Inr u), w0, l0) \<Longrightarrow>
   ws_session c a u fs w0 = (res, w', l) \<Longrightarrow>
   websocket_chat c a token fs w = (res, w', l0 @ l)"
  by (simp add: websocket_chat_def andthen_def)


text \<open>
  Claim C2. The token \<open>t\<close> is present and not empty and \<open>verify_token\<close> raises on it. Then
  the calls of the handler are exactly \<open>verify_token\<close> and \<open>close\<close> with code 4001: it calls
  neither \<open>connect\<close> nor \<open>receive_json\<close>, and it returns when the \<open>close\<close> call returns.
\<close>

theorem websocket_chat_bad_token_closes_4001:
  assumes "t \<noteq> []" and "verify_token c t w = (Inl e, w1)"
    and "ws_close c 4001 ''Authentication failed'' w1 = (r, w2)"
  shows "\<exists>res l. websocket_chat c agent (Some t) frames w = (res, w2, l) \<and>
           map fst l = [VerifyToken t, Close 4001 ''Authentication failed''] \<and>
           (\<forall>u. Connect u \<notin> fst ` set l) \<and> ReceiveJson \<notin> fst ` set l \<and>
           (\<forall>v. r = Inr v \<longrightarrow> res = Return ())"
proof -
  from ws_authenticate_token[OF assms(1,2)] assms(3)
  have "websocket_chat c agent (Some t) frames w =
     ((case r of Inl e' \<Rightarrow> Raise e' | Inr v \<Rightarrow> Return ()), w2,
      [(VerifyToken t, Raise e),
       (Close 4001 ''Authentication failed'', case r of Inl e' \<Rightarrow> Raise e' | Inr v \<Rightarrow> Return v)])"
    by (simp add: websocket_chat_def andthen_def perform_def ret_def split: sum.splits)
  then show ?thesis by auto
qed

theorem websocket_chat_bad_token_closes_4001_witness:
  "''expired'' \<noteq> [] \<and>
   verify_token sample_env ''expired'' 0 = (Inl (Exception ''bad token''), 1) \<and>
   ws_close sample_env 4001 ''Authentication failed'' 1 = (Inr PNone, 2) \<and>
   (\<exists>l. websocket_chat sample_env ''agent-1'' (Some ''expired'')
           [Inr (PDict [(''message'', PStr ''hi'')])] 0 = (Return (), 2, l) \<and>
        map fst l = [VerifyToken ''expired'', Close 4001 ''Authentication failed''])"
proof -
  have a: "''expired'' \<noteq> []" by simp
  have b: "verify_token sample_env ''expired'' 0 = (Inl (Exception ''bad token''), 1)"
    by (simp add: sample_env_def)
  have d: "ws_close sample_env 4001 ''Authentication failed'' 1 = (Inr PNone, 2)"
    by (simp add: sample_env_def)
  from websocket_chat_bad_token_closes_4001[OF a b d,
      of "''agent-1''" "[Inr (PDict [(''message'', PStr ''hi'')])]"]
  show ?thesis using b d by auto
qed

lemma ws_session_after_connect:
  assumes conn: "cm_connect c u w = (Inr v, w1)"
    and loop: "receive_loop c a u fs w1 = (rl, w2, ll)"
  shows "\<exists>res w' tl. ws_session c a u fs w = (res, w', (Connect u, Return v) # ll @ tl) \<and>
           (\<forall>cl r. (cl, r) \<in> set tl \<longrightarrow> cl = Disconnect \<or> cl = Close 4000 ''Internal server error'') \<and>
           (rl = Pending \<longrightarrow> res = Pending \<and> w' = w2 \<and> tl = [])"
proof (cases rl)
  case (Return x)
  with receive_loop_shape[OF loop] show ?thesis by blast
next
  case Pending
  with ws_session_pending[OF conn, of a fs w2 ll] loop
  have "ws_session c a u fs w = (Pending, w2, (Connect u, Return v) # ll @ [])" by simp
  with Pending show ?thesis
    by (intro exI[of _ Pending] exI[of _ w2] exI[of _ "[]"]) simp
next
  case (Raise e)
  show ?thesis
  proof (cases "e = WebSocketDisconnect")
    case True
    obtain rd w3 where d: "cm_disconnect c w2 = (rd, w3)" by (cases "cm_disconnect c w2")
    from loop Raise True have "receive_loop c a u fs w1 = (Raise WebSocketDisconnect, w2, ll)"
      by simp
    from ws_session_disconnected[OF conn this d] Raise show ?thesis by fastforce
  next
    case False
    obtain rc w3 where cl: "ws_close c 4000 ''Internal server error'' w2 = (rc, w3)"
      by (cases "ws_close c 4000 ''Internal server error'' w2")
    obtain rd w4 where d: "cm_disconnect c w3 = (rd, w4)" by (cases "cm_disconnect c w3")
    from loop Raise have "receive_loop c a u fs w1 = (Raise e, w2, ll)" by simp
    from ws_session_error[OF conn this False cl d] Raise show ?thesis by fastforce
  qed
qed

text \<open>
  Claim C9. The token is absent or empty. Then the handler is the session of lines 195-221
  run for the user \<open>None\<close> on the world it was started in: no \<open>verify_token\<close> comes first.
  \<open>rc\<close> is the outcome of \<open>connect\<close> called with the user \<open>None\<close> on that world. When it
  raises, the handler raises the same exception and has made that one call. When it returns,
  the handler goes on with the receive loop for the user \<open>None\<close> on the world \<open>connect\<close> left:
  the calls \<open>ll\<close> of that loop follow the \<open>connect\<close> call in the log and begin with
  \<open>receive_json\<close>; the log has no \<open>verify_token\<close> call, and every \<open>process_message\<close> call in
  it carries the user \<open>None\<close>. While the loop is still waiting for a frame, so is the handler.
\<close>

theorem websocket_chat_without_token:
  assumes "token = None \<or> token = Some []"
    and "cm_connect c PNone w = (rc, w1)"
    and "receive_loop c agent PNone frames w1 = (rl, w2, ll)"
  shows "websocket_chat c agent token frames w = ws_session c agent PNone frames w \<and>
     (\<forall>e. rc = Inl e \<longrightarrow>
        websocket_chat c agent token frames w = (Raise e, w1, [(Connect PNone, Raise e)])) \<and>
     (\<forall>v. rc = Inr v \<longrightarrow>
        (\<exists>res w' tl.
           websocket_chat c agent token frames w = (res, w', (Connect PNone, Return v) # ll @ tl) \<and>
           (rl = Pending \<longrightarrow> res = Pending \<and> w' = w2 \<and> tl = []) \<and>
           (\<exists>rr l'. ll = (ReceiveJson, rr) # l') \<and>
           (\<forall>t r. (VerifyToken t, r) \<notin> set (ll @ tl)) \<and>
           (\<forall>a u m cv r. (ProcessMessage a u m cv, r) \<in> set (ll @ tl) \<longrightarrow> u = PNone)))"
proof -
  obtain res w' ls where s: "ws_session c agent PNone frames w = (res, w', ls)"
    by (cases "ws_session c agent PNone frames w")
  from websocket_chat_authenticated[OF ws_authenticate_skipped[OF assms(1)] s]
  have run: "websocket_chat c agent token frames w = (res, w', ls)" by simp
  with s have eq: "websocket_chat c agent token frames w = ws_session c agent PNone frames w"
    by simp
  have raised: "\<forall>e. rc = Inl e \<longrightarrow>
        websocket_chat c agent token frames w = (Raise e, w1, [(Connect PNone, Raise e)])"
    using assms(2) eq ws_session_connect_raises[of c PNone w _ w1 agent frames] by auto
  have returned: "\<forall>v. rc = Inr v \<longrightarrow>
        (\<exists>res w' tl.
           websocket_chat c agent token frames w = (res, w', (Connect PNone, Return v) # ll @ tl) \<and>
           (rl = Pending \<longrightarrow> res = Pending \<and> w' = w2 \<and> tl = []) \<and>
           (\<exists>rr l'. ll = (ReceiveJson, rr) # l') \<and>
           (\<forall>t r. (VerifyToken t, r) \<notin> set (ll @ tl)) \<and>
           (\<forall>a u m cv r. (ProcessMessage a u m cv, r) \<in> set (ll @ tl) \<longrightarrow> u = PNone))"
  proof (intro allI impI)
    fix v assume "rc = Inr v"
    with assms(2) have conn: "cm_connect c PNone w = (Inr v, w1)" by simp
    from ws_session_after_connect[OF conn assms(3)] obtain res1 wz tl where
      s1: "ws_session c agent PNone frames w = (res1, wz, (Connect PNone, Return v) # ll @ tl)"
      and tl: "\<forall>cl r. (cl, r) \<in> set tl \<longrightarrow> cl = Disconnect \<or> cl = Close 4000 ''Internal server error''"
      and pend: "rl = Pending \<longrightarrow> res1 = Pending \<and> wz = w2 \<and> tl = []"
      by blast
    from receive_loop_shape[OF assms(3)] obtain rr l' where
      hd: "ll = (ReceiveJson, rr) # l'"
      and calls: "\<forall>cl r. (cl, r) \<in> set ll \<longrightarrow>
        cl = ReceiveJson \<or> (\<exists>m cv. cl = ProcessMessage agent PNone m cv) \<or> (\<exists>v. cl = SendJson v)"
      by blast
    have a: "\<forall>t r. (VerifyToken t, r) \<notin> set (ll @ tl)"
      using calls tl by fastforce
    have b: "\<forall>a u m cv r. (ProcessMessage a u m cv, r) \<in> set (ll @ tl) \<longrightarrow> u = PNone"
      using calls tl by fastforce
    from eq s1 have "websocket_chat c agent token frames w =
        (res1, wz, (Connect PNone, Return v) # ll @ tl)" by simp
    with pend hd a b show "\<exists>res w' tl.
           websocket_chat c agent token frames w = (res, w', (Connect PNone, Return v) # ll @ tl) \<and>
           (rl = Pending \<longrightarrow> res = Pending \<and> w' = w2 \<and> tl = []) \<and>
           (\<exists>rr l'. ll = (ReceiveJson, rr) # l') \<and>
           (\<forall>t r. (VerifyToken t, r) \<notin> set (ll @ tl)) \<and>
           (\<forall>a u m cv r. (ProcessMessage a u m cv, r) \<in> set (ll @ tl) \<longrightarrow> u = PNone)"
      by blast
  qed
  from eq raised returned show ?thesis by blast
qed

theorem websocket_chat_without_token_witness:
  "(Some [] = None \<or> Some [] = Some ([] :: string)) \<and>
   cm_connect sample_env PNone 0 = (Inr PNone, 1) \<and>
   receive_loop sample_env ''agent-1'' PNone
     [Inr (PDict [(''message'', PStr ''hi'')]), Inl WebSocketDisconnect] 1
     = (Raise WebSocketDisconnect, 3,
        [(ReceiveJson, Return (PDict [(''message'', PStr ''hi'')])),
         (ProcessMessage ''agent-1'' PNone (PStr ''hi'') PNone,
            Return (PDict [(''reply'', PStr ''hi''), (''turn'', PInt 1)])),
         (SendJson (PDict [(''reply'', PStr ''hi''), (''turn'', PInt 1)]), Return PNone),
         (ReceiveJson, Raise WebSocketDisconnect)]) \<and>
   websocket_chat sample_env ''agent-1'' (Some [])
     [Inr (PDict [(''message'', PStr ''hi'')]), Inl WebSocketDisconnect] 0
     = ws_session sample_env ''agent-1'' PNone
         [Inr (PDict [(''message'', PStr ''hi'')]), Inl WebSocketDisconnect] 0 \<and>
   websocket_chat sample_env ''agent-1'' (Some [])
     [Inr (PDict [(''message'', PStr ''hi'')]), Inl WebSocketDisconnect] 0
     = (Return (), 4,
        [(Connect PNone, Return PNone),
         (ReceiveJson, Return (PDict [(''message'', PStr ''hi'')])),
         (ProcessMessage ''agent-1'' PNone (PStr ''hi'') PNone,
            Return (PDict [(''reply'', PStr ''hi''), (''turn'', PInt 1)])),
         (SendJson (PDict [(''reply'', PStr ''hi''), (''turn'', PInt 1)]), Return PNone),
         (ReceiveJson, Raise WebSocketDisconnect),
         (Disconnect, Return PNone)])"
proof -
  have a: "Some [] = None \<or> Some [] = Some ([] :: string)" by simp
  have b: "cm_connect sample_env PNone 0 = (Inr PNone, 1)"
    by (simp add: sample_env_def)
  have d: "receive_loop sample_env ''agent-1'' PNone
     [Inr (PDict [(''message'', PStr ''hi'')]), Inl WebSocketDisconnect] 1
     = (Raise WebSocketDisconnect, 3,
        [(ReceiveJson, Return (PDict [(''message'', PStr ''hi'')])),
         (ProcessMessage ''agent-1'' PNone (PStr ''hi'') PNone,
            Return (PDict [(''reply'', PStr ''hi''), (''turn'', PInt 1)])),
         (SendJson (PDict [(''reply'', PStr ''hi''), (''turn'', PInt 1)]), Return PNone),
         (ReceiveJson, Raise WebSocketDisconnect)])"
    by (simp add: run_defs)
  have run: "websocket_chat sample_env ''agent-1'' (Some [])
     [Inr (PDict [(''message'', PStr ''hi'')]), Inl WebSocketDisconnect] 0
     = (Return (), 4,
        [(Connect PNone, Return PNone),
         (ReceiveJson, Return (PDict [(''message'', PStr ''hi'')])),
         (ProcessMessage ''agent-1'' PNone (PStr ''hi'') PNone,
            Return (PDict [(''reply'', PStr ''hi''), (''turn'', PInt 1)])),
         (SendJson (PDict [(''reply'', PStr ''hi''), (''turn'', PInt 1)]), Return PNone),
         (ReceiveJson, Raise WebSocketDisconnect),
         (Disconnect, Return PNone)])"
    by (simp add: run_defs)
  from websocket_chat_without_token[OF a b d]
  have "websocket_chat sample_env ''agent-1'' (Some [])
     [Inr (PDict [(''message'', PStr ''hi'')]), Inl WebSocketDisconnect] 0
     = ws_session sample_env ''agent-1'' PNone
         [Inr (PDict [(''message'', PStr ''hi'')]), Inl WebSocketDisconnect] 0"
    by blast
  with a b d run show ?thesis by blast
qed

text \<open>
  Claim C6. The connection was accepted for the user \<open>u\<close> and the receive loop ended with
  the exception \<open>e\<close> (raised by \<open>receive_json\<close>, by a \<open>data.get\<close>, by \<open>process_message\<close> or by
  \<open>send_json\<close>), leaving the world \<open>w2\<close>. When \<open>e\<close> is \<open>WebSocketDisconnect\<close> the handler calls
  \<open>disconnect\<close> on \<open>w2\<close> and nothing else, and ends in the world that call leaves. For every
  other exception it calls \<open>close\<close> with code 4000 on \<open>w2\<close>, then \<open>disconnect\<close> on the world
  that \<open>close\<close> leaves, and ends in the world \<open>disconnect\<close> leaves. In both cases the handler
  returns when these calls returned; an exception of \<open>disconnect\<close>, or else of \<open>close\<close>, is
  what it raises.
\<close>

theorem websocket_chat_loop_exception:
  assumes "ws_authenticate c token w = (Return (Inr u), w0, l0)"
    and "cm_connect c u w0 = (Inr v, w1)"
    and "receive_loop c agent u frames w1 = (Raise e, w2, ll)"
    and "cm_disconnect c w2 = (rd, w3)"
    and "ws_close c 4000 ''Internal server error'' w2 = (rc, w4)"
    and "cm_disconnect c w4 = (rd', w5)"
  shows "(e = WebSocketDisconnect \<longrightarrow>
            websocket_chat c agent token frames w =
              ((case rd of Inl e' \<Rightarrow> Raise e' | Inr x \<Rightarrow> Return ()), w3,
               l0 @ (Connect u, Return v) # ll @
               [(Disconnect, case rd of Inl e' \<Rightarrow> Raise e' | Inr x \<Rightarrow> Return x)])) \<and>
         (e \<noteq> WebSocketDisconnect \<longrightarrow>
            websocket_chat c agent token frames w =
              ((case rd' of Inl e' \<Rightarrow> Raise e'
                | Inr x \<Rightarrow> (case rc of Inl e' \<Rightarrow> Raise e' | Inr y \<Rightarrow> Return ())), w5,
               l0 @ (Connect u, Return v) # ll @
               [(Close 4000 ''Internal server error'',
                   case rc of Inl e' \<Rightarrow> Raise e' | Inr y \<Rightarrow> Return y),
                (Disconnect, case rd' of Inl e' \<Rightarrow> Raise e' | Inr x \<Rightarrow> Return x)]))"
proof (intro conjI impI)
  assume "e = WebSocketDisconnect"
  with assms(3) have lp: "receive_loop c agent u frames w1 = (Raise WebSocketDisconnect, w2, ll)"
    by simp
  from websocket_chat_authenticated[OF assms(1) ws_session_disconnected[OF assms(2) lp assms(4)]]
  show "websocket_chat c agent token frames w =
              ((case rd of Inl e' \<Rightarrow> Raise e' | Inr x \<Rightarrow> Return ()), w3,
               l0 @ (Connect u, Return v) # ll @
               [(Disconnect, case rd of Inl e' \<Rightarrow> Raise e' | Inr x \<Rightarrow> Return x)])" .
next
  assume ne: "e \<noteq> WebSocketDisconnect"
  from websocket_chat_authenticated[OF assms(1)
      ws_session_error[OF assms(2) assms(3) ne assms(5) assms(6)]]
  show "websocket_chat c agent token frames w =
              ((case rd' of Inl e' \<Rightarrow> Raise e'
                | Inr x \<Rightarrow> (case rc of Inl e' \<Rightarrow> Raise e' | Inr y \<Rightarrow> Return ())), w5,
               l0 @ (Connect u, Return v) # ll @
               [(Close 4000 ''Internal server error'',
                   case rc of Inl e' \<Rightarrow> Raise e' | Inr y \<Rightarrow> Return y),
                (Disconnect, case rd' of Inl e' \<Rightarrow> Raise e' | Inr x \<Rightarrow> Return x)])" .
qed

theorem websocket_chat_loop_exception_witness:
  "ws_authenticate sample_env (Some ''good'') 0 =
     (Return (Inr (PStr ''alice'')), 1,
      [(VerifyToken ''good'', Return (PDict [(''sub'', PStr ''alice'')]))]) \<and>
   cm_connect sample_env (PStr ''alice'') 1 = (Inr PNone, 2) \<and>
   receive_loop sample_env ''agent-1'' (PStr ''alice'') [Inr (PDict [(''message'', PStr ''crash'')])] 2
     = (Raise (Exception ''model failure''), 3,
        [(ReceiveJson, Return (PDict [(''message'', PStr ''crash'')])),
         (ProcessMessage ''agent-1'' (PStr ''alice'') (PStr ''crash'') PNone,
            Raise (Exception ''model failure''))]) \<and>
   ws_close sample_env 4000 ''Internal server error'' 3 = (Inr PNone, 4) \<and>
   cm_disconnect sample_env 4 = (Inr PNone, 5) \<and>
   websocket_chat sample_env ''agent-1'' (Some ''good'')
     [Inr (PDict [(''message'', PStr ''crash'')])] 0
     = (Return (), 5,
        [(VerifyToken ''good'', Return (PDict [(''sub'', PStr ''alice'')])),
         (Connect (PStr ''alice''), Return PNone),
         (ReceiveJson, Return (PDict [(''message'', PStr ''crash'')])),
         (ProcessMessage ''agent-1'' (PStr ''alice'') (PStr ''crash'') PNone,
            Raise (Exception ''model failure'')),
         (Close 4000 ''Internal server error'', Return PNone),
         (Disconnect, Return PNone)]) \<and>
   receive_loop sample_env ''agent-1'' (PStr ''alice'') [Inl WebSocketDisconnect] 2
     = (Raise WebSocketDisconnect, 2, [(ReceiveJson, Raise WebSocketDisconnect)]) \<and>
   cm_disconnect sample_env 2 = (Inr PNone, 3) \<and>
   websocket_chat sample_env ''agent-1'' (Some ''good'') [Inl WebSocketDisconnect] 0
     = (Return (), 3,
        [(VerifyToken ''good'', Return (PDict [(''sub'', PStr ''alice'')])),
         (Connect (PStr ''alice''), Return PNone),
         (ReceiveJson, Raise WebSocketDisconnect),
         (Disconnect, Return PNone)])"
proof -
  have a: "ws_authenticate sample_env (Some ''good'') 0 =
     (Return (Inr (PStr ''alice'')), 1,
      [(VerifyToken ''good'', Return (PDict [(''sub'', PStr ''alice'')]))])"
    by (simp add: run_defs)
  have b: "cm_connect sample_env (PStr ''alice'') 1 = (Inr PNone, 2)"
    by (simp add: sample_env_def)
  have d: "receive_loop sample_env ''agent-1'' (PStr ''alice'')
             [Inr (PDict [(''message'', PStr ''crash'')])] 2
     = (Raise (Exception ''model failure''), 3,
        [(ReceiveJson, Return (PDict [(''message'', PStr ''crash'')])),
         (ProcessMessage ''agent-1'' (PStr ''alice'') (PStr ''crash'') PNone,
            Raise (Exception ''model failure''))])"
    by (simp add: run_defs)
  have e: "receive_loop sample_env ''agent-1'' (PStr ''alice'') [Inl WebSocketDisconnect] 2
     = (Raise WebSocketDisconnect, 2, [(ReceiveJson, Raise WebSocketDisconnect)])"
    by (simp add: run_defs)
  have d2: "cm_disconnect sample_env 2 = (Inr PNone, 3)" by (simp add: sample_env_def)
  have d3: "cm_disconnect sample_env 3 = (Inr PNone, 4)" by (simp add: sample_env_def)
  have d4: "cm_disconnect sample_env 4 = (Inr PNone, 5)" by (simp add: sample_env_def)
  have c2: "ws_close sample_env 4000 ''Internal server error'' 2 = (Inr PNone, 3)"
    by (simp add: sample_env_def)
  have c3: "ws_close sample_env 4000 ''Internal server error'' 3 = (Inr PNone, 4)"
    by (simp add: sample_env_def)
  have h1: "websocket_chat sample_env ''agent-1'' (Some ''good'')
     [Inr (PDict [(''message'', PStr ''crash'')])] 0
     = (Return (), 5,
        [(VerifyToken ''good'', Return (PDict [(''sub'', PStr ''alice'')])),
         (Connect (PStr ''alice''), Return PNone),
         (ReceiveJson, Return (PDict [(''message'', PStr ''crash'')])),
         (ProcessMessage ''agent-1'' (PStr ''alice'') (PStr ''crash'') PNone,
            Raise (Exception ''model failure'')),
         (Close 4000 ''Internal server error'', Return PNone),
         (Disconnect, Return PNone)])"
    using websocket_chat_loop_exception[OF a b d d3 c3 d4] by simp
  have h2: "websocket_chat sample_env ''agent-1'' (Some ''good'') [Inl WebSocketDisconnect] 0
     = (Return (), 3,
        [(VerifyToken ''good'', Return (PDict [(''sub'', PStr ''alice'')])),
         (Connect (PStr ''alice''), Return PNone),
         (ReceiveJson, Raise WebSocketDisconnect),
         (Disconnect, Return PNone)])"
    using websocket_chat_loop_exception[OF a b e d2 c2 d3] by simp
  from a b d c3 d4 h1 e d2 h2 show ?thesis by blast
qed

lemma ws_authenticate_user:
  assumes "ws_authenticate c token w = (Return (Inr u), w0, l0)"
  shows "(token = None \<or> token = Some [] \<longrightarrow> u = PNone \<and> w0 = w \<and> l0 = []) \<and>
         (\<forall>t. token = Some t \<and> t \<noteq> [] \<longrightarrow>
            (\<exists>p. verify_token c t w = (Inr p, w0) \<and> py_get p ''sub'' PNone = Inr u \<and>
                 l0 = [(VerifyToken t, Return p)]))"
proof -
  have skipped: "token = None \<or> token = Some [] \<longrightarrow> u = PNone \<and> w0 = w \<and> l0 = []"
  proof (rule impI)
    assume "token = None \<or> token = Some []"
    from ws_authenticate_skipped[OF this, of c w] assms
    show "u = PNone \<and> w0 = w \<and> l0 = []" by simp
  qed
  have verified: "\<forall>t. token = Some t \<and> t \<noteq> [] \<longrightarrow>
            (\<exists>p. verify_token c t w = (Inr p, w0) \<and> py_get p ''sub'' PNone = Inr u \<and>
                 l0 = [(VerifyToken t, Return p)])"
  proof (intro allI impI)
    fix t assume t: "token = Some t \<and> t \<noteq> []"
    obtain r wv where v: "verify_token c t w = (r, wv)" by (cases "verify_token c t w")
    from t have "t \<noteq> []" by simp
    from ws_authenticate_token[OF this v] t assms
    have eq: "(case r of Inl e \<Rightarrow> Inl e | Inr p \<Rightarrow> py_get p ''sub'' PNone) = Inr u"
      and w: "wv = w0"
      and l: "l0 = [(VerifyToken t, case r of Inl e \<Rightarrow> Raise e | Inr p \<Rightarrow> Return p)]"
      by simp_all
    from eq obtain p where "r = Inr p" "py_get p ''sub'' PNone = Inr u"
      by (cases r) auto
    with v w l show "\<exists>p. verify_token c t w = (Inr p, w0) \<and> py_get p ''sub'' PNone = Inr u \<and>
                 l0 = [(VerifyToken t, Return p)]"
      by simp
  qed
  show ?thesis by (rule conjI[OF skipped verified])
qed

lemma receive_loop_object_process_raises:
  assumes "process_message c a u (case map_of d ''message'' of None \<Rightarrow> PStr [] | Some x \<Rightarrow> x)
      (case map_of d ''conversation_id'' of None \<Rightarrow> PNone | Some x \<Rightarrow> x) wi = (Inl e, wp)"
  shows "receive_loop c a u (Inr (PDict d) # fs) wi =
     (Raise e, wp,
      [(ReceiveJson, Return (PDict d)),
       (ProcessMessage a u (case map_of d ''message'' of None \<Rightarrow> PStr [] | Some x \<Rightarrow> x)
          (case map_of d ''conversation_id'' of None \<Rightarrow> PNone | Some x \<Rightarrow> x), Raise e)])"
  using chat_turn_process_raises[OF assms]
  by (simp add: receive_loop_Cons del: receive_loop.simps)

lemma receive_loop_object_send_raises:
  assumes "process_message c a u (case map_of d ''message'' of None \<Rightarrow> PStr [] | Some x \<Rightarrow> x)
      (case map_of d ''conversation_id'' of None \<Rightarrow> PNone | Some x \<Rightarrow> x) wi = (Inr resp, wp)"
    and "ws_send_json c resp wp = (Inl e, ws)"
  shows "receive_loop c a u (Inr (PDict d) # fs) wi =
     (Raise e, ws,
      [(ReceiveJson, Return (PDict d)),
       (ProcessMessage a u (case map_of d ''message'' of None \<Rightarrow> PStr [] | Some x \<Rightarrow> x)
          (case map_of d ''conversation_id'' of None \<Rightarrow> PNone | Some x \<Rightarrow> x), Return resp),
       (SendJson resp, Raise e)])"
  using chat_turn_process_returns[OF assms]
  by (simp add: receive_loop_Cons del: receive_loop.simps)

lemma receive_loop_object_continues:
  assumes "process_message c a u (case map_of d ''message'' of None \<Rightarrow> PStr [] | Some x \<Rightarrow> x)
      (case map_of d ''conversation_id'' of None \<Rightarrow> PNone | Some x \<Rightarrow> x) wi = (Inr resp, wp)"
    and "ws_send_json c resp wp = (Inr x, ws)"
    and "receive_loop c a u fs ws = (r, wz, l)"
  shows "receive_loop c a u (Inr (PDict d) # fs) wi =
     (r, wz,
      (ReceiveJson, Return (PDict d)) #
      (ProcessMessage a u (case map_of d ''message'' of None \<Rightarrow> PStr [] | Some x \<Rightarrow> x)
          (case map_of d ''conversation_id'' of None \<Rightarrow> PNone | Some x \<Rightarrow> x), Return resp) #
      (SendJson resp, Return x) # l)"
  using chat_turn_process_returns[OF assms(1,2)] assms(3)
  by (simp add: receive_loop_Cons del: receive_loop.simps)

lemma session_log_turns:
  assumes loop: "receive_loop c a u fs w1 = (rl, w2, ll)"
    and l0: "(ReceiveJson, Return (PDict d)) \<notin> set l0"
    and fin: "\<forall>cl r. (cl, r) \<in> set fin \<longrightarrow> cl = Disconnect \<or> cl = Close 4000 ''Internal server error''"
    and dec: "l0 @ (Connect u, Return v) # ll @ fin = pre @ (ReceiveJson, Return (PDict d)) # post"
  shows "\<exists>r post'. post = (ProcessMessage a u
                     (case map_of d ''message'' of None \<Rightarrow> PStr [] | Some x \<Rightarrow> x)
                     (case map_of d ''conversation_id'' of None \<Rightarrow> PNone | Some x \<Rightarrow> x), r) # post' \<and>
           (\<forall>resp. r = Return resp \<longrightarrow> (\<exists>r2 post''. post' = (SendJson resp, r2) # post''))"
proof -
  let ?x = "(ReceiveJson, Return (PDict d))"
  from dec have eq: "(l0 @ [(Connect u, Return v)]) @ (ll @ fin) = pre @ ?x # post" by simp
  from l0 have "?x \<notin> set (l0 @ [(Connect u, Return v)])" by simp
  from split_after_prefix[OF eq this] obtain pre' where rest: "ll @ fin = pre' @ ?x # post"
    by blast
  from fin have "?x \<notin> set fin" by auto
  from split_before_suffix[OF rest this] obtain post0 where
    post: "post = post0 @ fin" and ll: "ll = pre' @ ?x # post0"
    by blast
  from receive_loop_turns[OF loop ll] obtain r post1 where
    p1: "post0 = (ProcessMessage a u
                     (case map_of d ''message'' of None \<Rightarrow> PStr [] | Some x \<Rightarrow> x)
                     (case map_of d ''conversation_id'' of None \<Rightarrow> PNone | Some x \<Rightarrow> x), r) # post1"
    and p2: "\<forall>resp. r = Return resp \<longrightarrow> (\<exists>r2 post''. post1 = (SendJson resp, r2) # post'')"
    by blast
  have c4: "post = (ProcessMessage a u
                     (case map_of d ''message'' of None \<Rightarrow> PStr [] | Some x \<Rightarrow> x)
                     (case map_of d ''conversation_id'' of None \<Rightarrow> PNone | Some x \<Rightarrow> x), r) # (post1 @ fin)"
    using post p1 by simp
  have c5: "\<forall>resp. r = Return resp \<longrightarrow> (\<exists>r2 post''. post1 @ fin = (SendJson resp, r2) # post'')"
    using p2 by auto
  from c4 c5 show ?thesis by blast
qed

text \<open>
  Claim C4. The handler authenticated the user \<open>u\<close> (\<open>None\<close> without a token, otherwise the
  \<open>sub\<close> of the payload \<open>verify_token\<close> returned), \<open>connect\<close> returned, and the handler runs
  the receive loop for the agent id of the path and for \<open>u\<close>: the calls \<open>ll\<close> of that loop are
  in its log. At every turn of the loop, in any world \<open>wi\<close> and with any frames \<open>fs\<close> still
  to come, when \<open>receive_json\<close> returns the JSON object \<open>d\<close> the handler calls
  \<open>process_message\<close> on \<open>wi\<close> with that agent id, with \<open>u\<close>, with the message
  \<open>d.get("message", "")\<close> and with the conversation id \<open>d.get("conversation_id")\<close>. When that
  call raises, the loop ends with its exception. When it returns \<open>resp\<close>, the handler calls
  \<open>send_json\<close> with \<open>resp\<close> itself on the world \<open>process_message\<close> left, and when that returns
  the loop goes on with the remaining frames on the world \<open>send_json\<close> left. Accordingly,
  wherever the log of the run has a \<open>receive_json\<close> that returned an object \<open>d\<close>, the next entry is
  that \<open>process_message\<close> call, and after a returned \<open>resp\<close> the next is \<open>send_json\<close> of \<open>resp\<close>.
\<close>

theorem websocket_chat_forwards_frames:
  assumes "ws_authenticate c token w = (Return (Inr u), w0, l0)"
    and "cm_connect c u w0 = (Inr v, w1)"
    and "receive_loop c agent u frames w1 = (rl, w2, ll)"
  shows "(token = None \<or> token = Some [] \<longrightarrow> u = PNone \<and> w0 = w) \<and>
     (\<forall>t. token = Some t \<and> t \<noteq> [] \<longrightarrow>
        (\<exists>p. verify_token c t w = (Inr p, w0) \<and> py_get p ''sub'' PNone = Inr u)) \<and>
     (\<exists>res w' tl.
        websocket_chat c agent token frames w = (res, w', l0 @ (Connect u, Return v) # ll @ tl) \<and>
        (\<forall>pre d post.
           l0 @ (Connect u, Return v) # ll @ tl = pre @ (ReceiveJson, Return (PDict d)) # post \<longrightarrow>
           (\<exists>r post'.
              post = (ProcessMessage agent u
                        (case map_of d ''message'' of None \<Rightarrow> PStr [] | Some x \<Rightarrow> x)
                        (case map_of d ''conversation_id'' of None \<Rightarrow> PNone | Some x \<Rightarrow> x), r) # post' \<and>
              (\<forall>resp. r = Return resp \<longrightarrow> (\<exists>r2 post''. post' = (SendJson resp, r2) # post''))))) \<and>
     (\<forall>fs wi d e wp.
        process_message c agent u
          (case map_of d ''message'' of None \<Rightarrow> PStr [] | Some x \<Rightarrow> x)
          (case map_of d ''conversation_id'' of None \<Rightarrow> PNone | Some x \<Rightarrow> x) wi = (Inl e, wp) \<longrightarrow>
        receive_loop c agent u (Inr (PDict d) # fs) wi =
          (Raise e, wp,
           [(ReceiveJson, Return (PDict d)),
            (ProcessMessage agent u
               (case map_of d ''message'' of None \<Rightarrow> PStr [] | Some x \<Rightarrow> x)
               (case map_of d ''conversation_id'' of None \<Rightarrow> PNone | Some x \<Rightarrow> x), Raise e)])) \<and>
     (\<forall>fs wi d resp wp e ws.
        process_message c agent u
          (case map_of d ''message'' of None \<Rightarrow> PStr [] | Some x \<Rightarrow> x)
          (case map_of d ''conversation_id'' of None \<Rightarrow> PNone | Some x \<Rightarrow> x) wi = (Inr resp, wp) \<and>
        ws_send_json c resp wp = (Inl e, ws) \<longrightarrow>
        receive_loop c agent u (Inr (PDict d) # fs) wi =
          (Raise e, ws,
           [(ReceiveJson, Return (PDict d)),
            (ProcessMessage agent u
               (case map_of d ''message'' of None \<Rightarrow> PStr [] | Some x \<Rightarrow> x)
               (case map_of d ''conversation_id'' of None \<Rightarrow> PNone | Some x \<Rightarrow> x), Return resp),
            (SendJson resp, Raise e)])) \<and>
     (\<forall>fs wi d resp wp y ws r wz l.
        process_message c agent u
          (case map_of d ''message'' of None \<Rightarrow> PStr [] | Some x \<Rightarrow> x)
          (case map_of d ''conversation_id'' of None \<Rightarrow> PNone | Some x \<Rightarrow> x) wi = (Inr resp, wp) \<and>
        ws_send_json c resp wp = (Inr y, ws) \<and>
        receive_loop c agent u fs ws = (r, wz, l) \<longrightarrow>
        receive_loop c agent u (Inr (PDict d) # fs) wi =
          (r, wz,
           (ReceiveJson, Return (PDict d)) #
           (ProcessMessage agent u
              (case map_of d ''message'' of None \<Rightarrow> PStr [] | Some x \<Rightarrow> x)
              (case map_of d ''conversation_id'' of None \<Rightarrow> PNone | Some x \<Rightarrow> x), Return resp) #
           (SendJson resp, Return y) # l))"
proof -
  note au = ws_authenticate_user[OF assms(1)]
  have p1: "token = None \<or> token = Some [] \<longrightarrow> u = PNone \<and> w0 = w"
    using au by blast
  have p2: "\<forall>t. token = Some t \<and> t \<noteq> [] \<longrightarrow>
        (\<exists>p. verify_token c t w = (Inr p, w0) \<and> py_get p ''sub'' PNone = Inr u)"
    using au by blast
  have nl0: "(ReceiveJson, Return (PDict d)) \<notin> set l0" for d
  proof (cases "token = None \<or> token = Some []")
    case True
    with au show ?thesis by simp
  next
    case False
    then obtain t where "token = Some t \<and> t \<noteq> []" by auto
    with au obtain p where "l0 = [(VerifyToken t, Return p)]" by blast
    then show ?thesis by simp
  qed
  from ws_session_after_connect[OF assms(2,3)] obtain res w' tl where
    s: "ws_session c agent u frames w0 = (res, w', (Connect u, Return v) # ll @ tl)"
    and tl: "\<forall>cl r. (cl, r) \<in> set tl \<longrightarrow> cl = Disconnect \<or> cl = Close 4000 ''Internal server error''"
    by blast
  from websocket_chat_authenticated[OF assms(1) s]
  have run: "websocket_chat c agent token frames w = (res, w', l0 @ (Connect u, Return v) # ll @ tl)" .
  have p3: "\<exists>res w' tl.
        websocket_chat c agent token frames w = (res, w', l0 @ (Connect u, Return v) # ll @ tl) \<and>
        (\<forall>pre d post.
           l0 @ (Connect u, Return v) # ll @ tl = pre @ (ReceiveJson, Return (PDict d)) # post \<longrightarrow>
           (\<exists>r post'.
              post = (ProcessMessage agent u
                        (case map_of d ''message'' of None \<Rightarrow> PStr [] | Some x \<Rightarrow> x)
                        (case map_of d ''conversation_id'' of None \<Rightarrow> PNone | Some x \<Rightarrow> x), r) # post' \<and>
              (\<forall>resp. r = Return resp \<longrightarrow> (\<exists>r2 post''. post' = (SendJson resp, r2) # post''))))"
    using run session_log_turns[OF assms(3) nl0 tl] by blast
  have p4: "\<forall>fs wi d e wp.
        process_message c agent u
          (case map_of d ''message'' of None \<Rightarrow> PStr [] | Some x \<Rightarrow> x)
          (case map_of d ''conversation_id'' of None \<Rightarrow> PNone | Some x \<Rightarrow> x) wi = (Inl e, wp) \<longrightarrow>
        receive_loop c agent u (Inr (PDict d) # fs) wi =
          (Raise e, wp,
           [(ReceiveJson, Return (PDict d)),
            (ProcessMessage agent u
               (case map_of d ''message'' of None \<Rightarrow> PStr [] | Some x \<Rightarrow> x)
               (case map_of d ''conversation_id'' of None \<Rightarrow> PNone | Some x \<Rightarrow> x), Raise e)])"
    by (intro allI impI) (rule receive_loop_object_process_raises)
  have p5: "\<forall>fs wi d resp wp e ws.
        process_message c agent u
          (case map_of d ''message'' of None \<Rightarrow> PStr [] | Some x \<Rightarrow> x)
          (case map_of d ''conversation_id'' of None \<Rightarrow> PNone | Some x \<Rightarrow> x) wi = (Inr resp, wp) \<and>
        ws_send_json c resp wp = (Inl e, ws) \<longrightarrow>
        receive_loop c agent u (Inr (PDict d) # fs) wi =
          (Raise e, ws,
           [(ReceiveJson, Return (PDict d)),
            (ProcessMessage agent u
               (case map_of d ''message'' of None \<Rightarrow> PStr [] | Some x \<Rightarrow> x)
               (case map_of d ''conversation_id'' of None \<Rightarrow> PNone | Some x \<Rightarrow> x), Return resp),
            (SendJson resp, Raise e)])"
    by (intro allI impI, elim conjE) (rule receive_loop_object_send_raises)
  have p6: "\<forall>fs wi d resp wp y ws r wz l.
        process_message c agent u
          (case map_of d ''message'' of None \<Rightarrow> PStr [] | Some x \<Rightarrow> x)
          (case map_of d ''conversation_id'' of None \<Rightarrow> PNone | Some x \<Rightarrow> x) wi = (Inr resp, wp) \<and>
        ws_send_json c resp wp = (Inr y, ws) \<and>
        receive_loop c agent u fs ws = (r, wz, l) \<longrightarrow>
        receive_loop c agent u (Inr (PDict d) # fs) wi =
          (r, wz,
           (ReceiveJson, Return (PDict d)) #
           (ProcessMessage agent u
              (case map_of d ''message'' of None \<Rightarrow> PStr [] | Some x \<Rightarrow> x)
              (case map_of d ''conversation_id'' of None \<Rightarrow> PNone | Some x \<Rightarrow> x), Return resp) #
           (SendJson resp, Return y) # l)"
    by (intro allI impI, elim conjE) (rule receive_loop_object_continues)
  show ?thesis
    by (rule conjI[OF p1 conjI[OF p2 conjI[OF p3 conjI[OF p4 conjI[OF p5 p6]]]]])
qed

theorem websocket_chat_forwards_frames_witness:
  "ws_authenticate sample_env (Some ''good'') 0 =
     (Return (Inr (PStr ''alice'')), 1,
      [(VerifyToken ''good'', Return (PDict [(''sub'', PStr ''alice'')]))]) \<and>
   cm_connect sample_env (PStr ''alice'') 1 = (Inr PNone, 2) \<and>
   process_message sample_env ''agent-1'' (PStr ''alice'') (PStr ''hi'') (PStr ''c1'') 2 =
     (Inr (PDict [(''reply'', PStr ''hi''), (''turn'', PInt 2)]), 3) \<and>
   ws_send_json sample_env (PDict [(''reply'', PStr ''hi''), (''turn'', PInt 2)]) 3 =
     (Inr PNone, 4) \<and>
   receive_loop sample_env ''agent-1'' (PStr ''alice'') [Inl WebSocketDisconnect] 4 =
     (Raise WebSocketDisconnect, 4, [(ReceiveJson, Raise WebSocketDisconnect)]) \<and>
   receive_loop sample_env ''agent-1'' (PStr ''alice'')
     [Inr (PDict [(''message'', PStr ''hi''), (''conversation_id'', PStr ''c1'')]),
      Inl WebSocketDisconnect] 2 =
     (Raise WebSocketDisconnect, 4,
      [(ReceiveJson, Return (PDict [(''message'', PStr ''hi''), (''conversation_id'', PStr ''c1'')])),
       (ProcessMessage ''agent-1'' (PStr ''alice'') (PStr ''hi'') (PStr ''c1''),
          Return (PDict [(''reply'', PStr ''hi''), (''turn'', PInt 2)])),
       (SendJson (PDict [(''reply'', PStr ''hi''), (''turn'', PInt 2)]), Return PNone),
       (ReceiveJson, Raise WebSocketDisconnect)]) \<and>
   verify_token sample_env ''good'' 0 = (Inr (PDict [(''sub'', PStr ''alice'')]), 1) \<and>
   (\<exists>res w' tl.
      websocket_chat sample_env ''agent-1'' (Some ''good'')
        [Inr (PDict [(''message'', PStr ''hi''), (''conversation_id'', PStr ''c1'')]),
         Inl WebSocketDisconnect] 0 =
        (res, w',
         [(VerifyToken ''good'', Return (PDict [(''sub'', PStr ''alice'')])),
          (Connect (PStr ''alice''), Return PNone),
          (ReceiveJson, Return (PDict [(''message'', PStr ''hi''), (''conversation_id'', PStr ''c1'')])),
          (ProcessMessage ''agent-1'' (PStr ''alice'') (PStr ''hi'') (PStr ''c1''),
             Return (PDict [(''reply'', PStr ''hi''), (''turn'', PInt 2)])),
          (SendJson (PDict [(''reply'', PStr ''hi''), (''turn'', PInt 2)]), Return PNone),
          (ReceiveJson, Raise WebSocketDisconnect)] @ tl))"
proof -
  let ?d = "[(''message'', PStr ''hi''), (''conversation_id'', PStr ''c1'')]"
  let ?resp = "PDict [(''reply'', PStr ''hi''), (''turn'', PInt 2)]"
  have a: "ws_authenticate sample_env (Some ''good'') 0 =
     (Return (Inr (PStr ''alice'')), 1,
      [(VerifyToken ''good'', Return (PDict [(''sub'', PStr ''alice'')]))])"
    by (simp add: run_defs)
  have b: "cm_connect sample_env (PStr ''alice'') 1 = (Inr PNone, 2)"
    by (simp add: sample_env_def)
  have pm: "process_message sample_env ''agent-1'' (PStr ''alice'')
      (case map_of ?d ''message'' of None \<Rightarrow> PStr [] | Some x \<Rightarrow> x)
      (case map_of ?d ''conversation_id'' of None \<Rightarrow> PNone | Some x \<Rightarrow> x) 2 = (Inr ?resp, 3)"
    by (simp add: sample_env_def)
  have sj: "ws_send_json sample_env ?resp 3 = (Inr PNone, 4)"
    by (simp add: sample_env_def)
  have rest: "receive_loop sample_env ''agent-1'' (PStr ''alice'') [Inl WebSocketDisconnect] 4 =
     (Raise WebSocketDisconnect, 4, [(ReceiveJson, Raise WebSocketDisconnect)])"
    by (simp add: run_defs)
  obtain rl w2 ll where lp: "receive_loop sample_env ''agent-1'' (PStr ''alice'')
     [Inr (PDict ?d), Inl WebSocketDisconnect] 2 = (rl, w2, ll)"
    by (cases "receive_loop sample_env ''agent-1'' (PStr ''alice'')
     [Inr (PDict ?d), Inl WebSocketDisconnect] 2")
  note inst = websocket_chat_forwards_frames[OF a b lp]
  note c2 = inst[THEN conjunct2, THEN conjunct1]
  note c3 = inst[THEN conjunct2, THEN conjunct2, THEN conjunct1]
  note c6 = inst[THEN conjunct2, THEN conjunct2, THEN conjunct2, THEN conjunct2, THEN conjunct2]
  from c6[rule_format, OF conjI[OF pm conjI[OF sj rest]]]
  have loop: "receive_loop sample_env ''agent-1'' (PStr ''alice'')
     [Inr (PDict ?d), Inl WebSocketDisconnect] 2 =
     (Raise WebSocketDisconnect, 4,
      [(ReceiveJson, Return (PDict ?d)),
       (ProcessMessage ''agent-1'' (PStr ''alice'') (PStr ''hi'') (PStr ''c1''), Return ?resp),
       (SendJson ?resp, Return PNone),
       (ReceiveJson, Raise WebSocketDisconnect)])"
    by (simp del: receive_loop.simps)
  from c2 have "\<exists>p. verify_token sample_env ''good'' 0 = (Inr p, 1) \<and>
      py_get p ''sub'' PNone = Inr (PStr ''alice'')"
    by simp
  then have vt: "verify_token sample_env ''good'' 0 = (Inr (PDict [(''sub'', PStr ''alice'')]), 1)"
    by (auto simp add: sample_env_def)
  from lp loop have ll: "ll =
      [(ReceiveJson, Return (PDict ?d)),
       (ProcessMessage ''agent-1'' (PStr ''alice'') (PStr ''hi'') (PStr ''c1''), Return ?resp),
       (SendJson ?resp, Return PNone),
       (ReceiveJson, Raise WebSocketDisconnect)]"
    by (simp del: receive_loop.simps)
  from c3 obtain res w' tl where
    "websocket_chat sample_env ''agent-1'' (Some ''good'')
        [Inr (PDict ?d), Inl WebSocketDisconnect] 0 =
        (res, w',
         [(VerifyToken ''good'', Return (PDict [(''sub'', PStr ''alice'')]))] @
         (Connect (PStr ''alice''), Return PNone) # ll @ tl)"
    by blast
  with ll have run: "\<exists>res w' tl.
      websocket_chat sample_env ''agent-1'' (Some ''good'')
        [Inr (PDict ?d), Inl WebSocketDisconnect] 0 =
        (res, w',
         [(VerifyToken ''good'', Return (PDict [(''sub'', PStr ''alice'')])),
          (Connect (PStr ''alice''), Return PNone),
          (ReceiveJson, Return (PDict ?d)),
          (ProcessMessage ''agent-1'' (PStr ''alice'') (PStr ''hi'') (PStr ''c1''), Return ?resp),
          (SendJson ?resp, Return PNone),
          (ReceiveJson, Raise WebSocketDisconnect)] @ tl)"
    by simp
  from pm have pm': "process_message sample_env ''agent-1'' (PStr ''alice'') (PStr ''hi'')
      (PStr ''c1'') 2 = (Inr ?resp, 3)"
    by simp
  show ?thesis
    by (rule conjI[OF a conjI[OF b conjI[OF pm' conjI[OF sj conjI[OF rest conjI[OF loop
          conjI[OF vt run]]]]]]])
qed

section \<open>Properties of the request models\<close>









section \<open>Properties of the settings singleton\<close>

lemma get_settings_hit:
  "cache st = Some r \<Longrightarrow> get_settings load environ st = (Inr r, st)"
  by (simp add: get_settings_def)

lemma get_settings_calls_hit:
  "cache st = Some r \<Longrightarrow>
   get_settings_calls load envs st = (replicate (length envs) (Inr r), st)"
  by (induction envs) (simp_all add: get_settings_hit)

lemma import_config_returns:
  assumes "import_config load e0 = (Inr s, st)"
  shows "\<exists>v. load e0 = Inr v \<and> s = 0 \<and>
           st = \<lparr>objects = [v], cache = Some 0, constructed = 1\<rparr>"
  using assms
  by (auto simp add: import_config_def get_settings_def Settings_init_def split: sum.splits)

text \<open>
  Claim C8. The module was imported, so its first call of \<open>get_settings\<close>, on the environment
  \<open>e0\<close>, returned the object \<open>s\<close>. Then every later call returns that same object \<open>s\<close>,
  whatever the environment has become; the constructor has run once in all; and \<open>s\<close> still
  holds the value read from \<open>e0\<close>.
\<close>

theorem get_settings_single_instance:
  assumes "import_config load e0 = (Inr s, st)"
    and "get_settings_calls load envs st = (rs, st')"
  shows "length rs = length envs \<and> (\<forall>r \<in> set rs. r = Inr s) \<and>
         constructed st' = 1 \<and>
         (\<exists>v. load e0 = Inr v \<and> s < length (objects st') \<and> objects st' ! s = v)"
proof -
  from import_config_returns[OF assms(1)] obtain v where
    v: "load e0 = Inr v" and s: "s = 0"
    and st: "st = \<lparr>objects = [v], cache = Some 0, constructed = 1\<rparr>"
    by blast
  from st s have "cache st = Some s" by simp
  from get_settings_calls_hit[OF this, of load envs] assms(2)
  have rs: "rs = replicate (length envs) (Inr s)" and st': "st' = st" by simp_all
  from rs st' st s v show ?thesis by simp
qed

theorem get_settings_single_instance_witness:
  "import_config sample_load [(''DATABASE_URL'', ''postgres://db'')] =
     (Inr 0, \<lparr>objects = [''postgres://db''], cache = Some 0, constructed = 1\<rparr>) \<and>
   get_settings_calls sample_load [[], [(''DATABASE_URL'', ''sqlite://other'')]]
     \<lparr>objects = [''postgres://db''], cache = Some 0, constructed = 1\<rparr> =
     ([Inr 0, Inr 0], \<lparr>objects = [''postgres://db''], cache = Some 0, constructed = 1\<rparr>) \<and>
   constructed \<lparr>objects = [''postgres://db''], cache = Some 0, constructed = 1\<rparr> = 1"
proof -
  have a: "import_config sample_load [(''DATABASE_URL'', ''postgres://db'')] =
     (Inr 0, \<lparr>objects = [''postgres://db''], cache = Some 0, constructed = 1\<rparr>)"
    by (simp add: import_config_def get_settings_def Settings_init_def sample_load_def)
  have b: "get_settings_calls sample_load [[], [(''DATABASE_URL'', ''sqlite://other'')]]
     \<lparr>objects = [''postgres://db''], cache = Some 0, constructed = 1\<rparr> =
     ([Inr 0, Inr 0], \<lparr>objects = [''postgres://db''], cache = Some 0, constructed = 1\<rparr>)"
    by (simp add: get_settings_def)
  from get_settings_single_instance[OF a b] a b show ?thesis by simp
qed

end
